theory Spec2Isabelle
  imports Main
begin

section \<open>The hawkBit client of rauc-hawkbit-updater (src/hawkbit-client.c)\<close>

text \<open>
  A shallow embedding of \<^verbatim>\<open>hawkbit-client.c\<close>. Every C function that takes part in the
  update session is a HOL function of the same name over an explicit \<open>world\<close>: the file's
  static variables (\<open>hawkbit_config\<close>, \<open>action_id\<close>, \<open>thread_download\<close>, \<open>run_once\<close>),
  what the process has done so far (the \<open>trace\<close> of transfers, stores to \<open>action_id\<close>,
  frees, thread operations and callbacks, and the \<open>logs\<close> written through GLib), and the
  outside it talks to (files, the server's answers, \<open>statvfs\<close>, the clock). A C function
  with a \<open>GError **\<close> out-parameter returns \<open>GError + 'a\<close>, with \<open>Inl\<close> the error.

  Conventions.
  \<^item> A \<open>gchar *\<close> that may be \<open>NULL\<close> is a \<open>string option\<close>; a \<open>JsonNode *\<close> that may be
    \<open>NULL\<close> is a \<open>json option\<close>.
  \<^item> A JSONPath such as \<^verbatim>\<open>$.config.polling.sleep\<close> is written as its list of member
    names, \<open>[''config'', ''polling'', ''sleep'']\<close>.
  \<^item> \<open>long\<close> and \<open>gint64\<close> values are HOL integers: the counters of the poller stay
    below the polling interval, and sizes are read and compared, not computed. The one
    product of the file, the free space in \<open>goffset\<close>, wraps at 64 bits.
  \<^item> The download worker is a function from world to world: it runs atomically, at the
    point where the model's caller applies it. Interleavings of the two threads are not
    part of this embedding.
  \<^item> \<open>curl_easy_init\<close> and \<open>curl_slist_append\<close> are taken to succeed (their failure is
    memory exhaustion), so the branches returning \<open>CURLE_FAILED_INIT\<close> do not appear.
  \<^item> The argument checks \<open>g_return_val_if_fail\<close> hold at every call inside the file, except
    that json-glib is handed a \<open>NULL\<close> parser after an empty body; the critical line
    GLib writes then is not in \<open>logs\<close>, and the \<open>NULL\<close> root it returns is.
  \<^item> Memory is not modelled, so \<open>g_free\<close>, \<open>g_object_unref\<close> and the cleanup of
    artifacts leave no trace, with one exception: the free of the action id's string.
\<close>

subsection \<open>JSON documents and the helpers of json-helper.h\<close>

datatype json =
    JNull
  | JBool bool
  | JInt int
  | JString string
  | JArray "json list"
  | JObject "(string \<times> json) list"

text \<open>Member access along a path of names; only objects have members.\<close>

fun json_path :: "string list \<Rightarrow> json \<Rightarrow> json option" where
  "json_path [] j = Some j"
| "json_path (k # ks) (JObject ms) =
     (case map_of ms k of None \<Rightarrow> None | Some v \<Rightarrow> json_path ks v)"
| "json_path (k # ks) _ = None"

text \<open>
  Modelled from the spec: \<^verbatim>\<open>json-helper.c\<close> (json_get_string, json_get_int,
  json_get_array, json_contains) is not under src/. The spec speaks of fields that are
  extracted and of fields that are missing; accordingly a helper yields the value at the
  path when a value of the wanted kind is there, and \<open>NULL\<close> (zero for an integer, false
  for containment) otherwise, also on a \<open>NULL\<close> root.
\<close>

definition json_get_string :: "json option \<Rightarrow> string list \<Rightarrow> string option" where
  "json_get_string root p =
     (case root of None \<Rightarrow> None
      | Some j \<Rightarrow> (case json_path p j of Some (JString s) \<Rightarrow> Some s | _ \<Rightarrow> None))"

definition json_get_int :: "json option \<Rightarrow> string list \<Rightarrow> int" where
  "json_get_int root p =
     (case root of None \<Rightarrow> 0
      | Some j \<Rightarrow> (case json_path p j of Some (JInt n) \<Rightarrow> n | _ \<Rightarrow> 0))"

definition json_get_array :: "json option \<Rightarrow> string list \<Rightarrow> json list option" where
  "json_get_array root p =
     (case root of None \<Rightarrow> None
      | Some j \<Rightarrow> (case json_path p j of Some (JArray xs) \<Rightarrow> Some xs | _ \<Rightarrow> None))"

definition json_contains :: "json option \<Rightarrow> string list \<Rightarrow> bool" where
  "json_contains root p =
     (case root of None \<Rightarrow> False | Some j \<Rightarrow> json_path p j \<noteq> None)"

subsection \<open>Configuration, errors, requests\<close>

text \<open>
  Modelled from the spec: the \<open>Config\<close> struct of \<^verbatim>\<open>config-file.h\<close> is not under src/. Its
  fields are the ones \<^verbatim>\<open>hawkbit-client.c\<close> reads; \<open>device\<close> is the \<open>GHashTable *\<close> of
  device attributes, in iteration order, \<open>None\<close> for a \<open>NULL\<close> table.
\<close>

record Config =
  hawkbit_server :: string
  tenant_id :: string
  controller_id :: string
  ssl :: bool
  ssl_verify :: bool
  auth_token :: "string option"
  gateway_token :: "string option"
  connect_timeout :: int
  timeout :: int
  retry_wait :: int
  bundle_download_location :: string
  post_update_reboot :: bool
  device :: "(string \<times> string) list option"

datatype HTTPMethod = GET | HEAD | PUT | POST | PATCH | DELETE

text \<open>
  Error domains: the three quarks registered by the file, GLib's file error domain, the
  domain of a library error passed through (json-glib's parser), and a quark written as
  a number, which \<open>process_deployment\<close> uses once.
\<close>

datatype GQuark =
    RHU_HAWKBIT_CLIENT_ERROR
  | RHU_HAWKBIT_CLIENT_CURL_ERROR
  | RHU_HAWKBIT_CLIENT_HTTP_ERROR
  | G_FILE_ERROR
  | LibraryDomain string
  | Quark nat

datatype GError = GError (err_domain: GQuark) (err_code: int) (err_message: string)

text \<open>
  Modelled from the spec: the enumeration \<open>RHUHawkbitClientError\<close> of
  \<^verbatim>\<open>hawkbit-client.h\<close> is not under src/. The spec names the error kinds without
  numbering them; the two enumerators used here get the distinct values 0 and 1, and
  nothing below depends on which is which. \<open>G_FILE_ERROR_FAILED\<close> is GLib's value.
\<close>

definition RHU_HAWKBIT_CLIENT_ERROR_ALREADY_IN_PROGRESS :: int where
  "RHU_HAWKBIT_CLIENT_ERROR_ALREADY_IN_PROGRESS = 0"

definition RHU_HAWKBIT_CLIENT_ERROR_JSON_RESPONSE_PARSE :: int where
  "RHU_HAWKBIT_CLIENT_ERROR_JSON_RESPONSE_PARSE = 1"

definition G_FILE_ERROR_FAILED :: int where
  "G_FILE_ERROR_FAILED = 24"

definition g_error_matches :: "GError \<Rightarrow> GQuark \<Rightarrow> int \<Rightarrow> bool" where
  "g_error_matches e d c = (err_domain e = d \<and> err_code e = c)"

record request =
  req_method :: HTTPMethod
  req_url :: string
  req_headers :: "string list"
  req_body :: "json option"
  req_connect_timeout :: int
  req_timeout :: int
  req_ssl_verify :: bool

text \<open>
  What a transfer comes back with: the \<open>CURLcode\<close> (0 is \<open>CURLE_OK\<close>) and its
  \<open>curl_easy_strerror\<close>, the HTTP status, the body received, and what
  \<open>json_parser_load_from_data\<close> makes of that body.
\<close>

datatype response =
  Response (curl_code: nat) (curl_strerror: string) (http_code: int) (payload: string)
           (parsed: "GError + json")

text \<open>
  The same for a bundle download, with the average speed reported by curl and the hex
  digest \<open>g_checksum_get_string\<close> gives for the bytes written.
\<close>

datatype download =
  Download (dl_curl_code: nat) (dl_curl_strerror: string) (dl_http_code: int)
           (dl_speed: int) (dl_sha1: string)

record bundle_request =
  dl_url :: "string option"
  dl_file :: string
  dl_headers :: "string list"
  dl_connect_timeout :: int
  dl_ssl_verify :: bool

record artifact =
  name :: "string option"
  version :: "string option"
  size_bytes :: int
  download_url :: "string option"
  feedback_url :: string
  sha1 :: "string option"

datatype log_level = DEBUG | MESSAGE | WARNING | CRITICAL

datatype event =
    Perform request
  | PerformDownload bundle_request
  | StoreActionId "string option"
  | Free string
  | ThreadJoin artifact
  | ThreadNew artifact
  | SoftwareReady string
  | Sync
  | Reboot


text \<open>The three fields of \<open>struct tm\<close> that \<open>json_get_sleeptime\<close> reads.\<close>

record tm =
  tm_sec :: int
  tm_min :: int
  tm_hour :: int

subsection \<open>The world\<close>

text \<open>
  The first four fields are the file's static variables. \<open>trace\<close> and \<open>logs\<close> record what
  the process did, oldest first. \<open>files\<close> is the set of paths that exist. The remaining
  fields describe the outside and are never written: the answer of the server to a
  request (it may depend on everything done before), whether \<open>fopen\<close> for writing and
  \<open>g_remove\<close> succeed on a path, what \<open>statvfs\<close> reports for a directory (\<open>Inl\<close> the
  errno, \<open>Inr\<close> the pair \<open>f_bsize\<close>, \<open>f_bavail\<close>), the errno of a failing \<open>reboot\<close>, the
  text of an errno, the text \<open>json_to_string\<close> prints for a document, the time of day
  as \<open>strftime\<close> formats it with \<^verbatim>\<open>%Y%m%dT%H%M%S\<close> after a given number of events, and the
  contents of the uninitialised locals \<open>struct tm time\<close> (json_get_sleeptime) and
  \<open>cdata.res\<close> (hawkbit_start_service_sync).
\<close>

record world =
  hawkbit_config :: Config
  run_once :: bool
  action_id :: "string option"
  thread_download :: "artifact option"
  trace :: "event list"
  logs :: "(log_level \<times> string) list"
  files :: "string set"
  server :: "event list \<Rightarrow> request \<Rightarrow> response"
  bundle_server :: "event list \<Rightarrow> bundle_request \<Rightarrow> download"
  fopen_ok :: "string \<Rightarrow> bool"
  remove_ok :: "string \<Rightarrow> bool"
  statvfs :: "string \<Rightarrow> int + (int \<times> int)"
  reboot_errno :: "int option"
  g_strerror :: "int \<Rightarrow> string"
  json_to_string :: "json \<Rightarrow> string"
  clock :: "nat \<Rightarrow> string"
  stack_tm :: tm
  stack_res :: int

definition g_log :: "log_level \<Rightarrow> string \<Rightarrow> world \<Rightarrow> world" where
  "g_log lvl msg w = w\<lparr>logs := logs w @ [(lvl, msg)]\<rparr>"

definition emit :: "event \<Rightarrow> world \<Rightarrow> world" where
  "emit e w = w\<lparr>trace := trace w @ [e]\<rparr>"

subsection \<open>printf conversions\<close>

text \<open>\<^verbatim>\<open>%s\<close> of a pointer that may be \<open>NULL\<close>, as glibc prints it.\<close>

definition str_or_null :: "string option \<Rightarrow> string" where
  "str_or_null s = (case s of None \<Rightarrow> ''(null)'' | Some t \<Rightarrow> t)"

definition digit_char :: "nat \<Rightarrow> char" where
  "digit_char d = ''0123456789'' ! d"

function show_nat :: "nat \<Rightarrow> string" where
  "show_nat n =
     (if n < 10 then [digit_char n] else show_nat (n div 10) @ [digit_char (n mod 10)])"
  by pat_completeness auto
termination
  by (relation "measure id") auto

declare show_nat.simps [simp del]

text \<open>\<^verbatim>\<open>%d\<close>, \<^verbatim>\<open>%ld\<close> and the 64-bit formats.\<close>

definition show_int :: "int \<Rightarrow> string" where
  "show_int i = (if i < 0 then CHR ''-'' # show_nat (nat (- i)) else show_nat (nat i))"

text \<open>
  The conversion of a speed to \<open>double\<close>, for a speed that is not negative and fits
  \<open>curl_off_t\<close> (below \<open>2 ^ 63\<close>): up to \<open>2 ^ 53\<close> it is exact, above it keeps 53 bits,
  rounded to the nearest, a tie to the even one.
\<close>

definition to_double :: "int \<Rightarrow> int" where
  "to_double n =
     (let e = length (filter (\<lambda>k. 2 ^ k \<le> n) [53..<63]);
          q = n div 2 ^ e;
          r = n mod 2 ^ e;
          h = (if 2 * r > 2 ^ e \<or> (2 * r = 2 ^ e \<and> odd q) then q + 1 else q)
      in h * 2 ^ e)"

text \<open>
  \<^verbatim>\<open>%.2f\<close> of \<open>(double) speed / (1024 * 1024)\<close>: the division by a power of two is
  exact, and printf rounds the quotient to the nearest hundredth, a tie to the even
  one.
\<close>

definition show_mb_per_s :: "int \<Rightarrow> string" where
  "show_mb_per_s speed =
     (let n = to_double speed * 100;
          q = n div 1048576;
          r = n mod 1048576;
          h = (if 2 * r > 1048576 \<or> (2 * r = 1048576 \<and> odd q) then q + 1 else q);
          c = nat (h mod 100)
      in show_int (h div 100) @ ''.'' @ [digit_char (c div 10), digit_char (c mod 10)])"

subsection \<open>URLs and the status envelope\<close>

text \<open>
  \<open>build_api_url\<close>: the argument is the path after its printf arguments were inserted,
  \<open>None\<close> for \<open>build_api_url(NULL)\<close>.
\<close>

definition build_api_url :: "Config \<Rightarrow> string option \<Rightarrow> string" where
  "build_api_url cfg buffer =
     (if ssl cfg then ''https'' else ''http'') @ ''://'' @ hawkbit_server cfg @ ''/''
       @ tenant_id cfg @ ''/controller/v1/'' @ controller_id cfg
       @ (case buffer of None \<Rightarrow> '''' | Some b \<Rightarrow> ''/'' @ b)"

text \<open>
  \<open>json_build_status\<close> fills the builder it is given; the model returns the document
  built. The members are in the order the builder receives them; the parameter \<open>id\<close> of
  the source is \<open>ident\<close> here.
\<close>

definition json_build_status ::
  "world \<Rightarrow> string option \<Rightarrow> string option \<Rightarrow> string \<Rightarrow> string
     \<Rightarrow> (string \<times> string) list option \<Rightarrow> json" where
  "json_build_status w ident detail result execution data =
     (let timeString = clock w (length (trace w)) in
      JObject
        ((case ident of None \<Rightarrow> [] | Some i \<Rightarrow> [(''id'', JString i)])
         @ [(''time'', JString timeString),
            (''status'',
              JObject
                ([(''result'', JObject [(''finished'', JString result)]),
                  (''execution'', JString execution)]
                 @ (case detail of None \<Rightarrow> []
                    | Some d \<Rightarrow> [(''details'', JArray [JString d])])))]
         @ (case data of None \<Rightarrow> []
            | Some kvs \<Rightarrow> [(''data'', JObject (map (\<lambda>(k, v). (k, JString v)) kvs))])))"

subsection \<open>Transport\<close>

text \<open>
  \<open>rest_request\<close>. \<open>want_parser\<close> says that the caller passed a place for the response
  parser; the result \<open>Inr None\<close> is success with that place left \<open>NULL\<close> (no parser wanted,
  or an empty body), \<open>Inr (Some root)\<close> success with a parser whose root is \<open>root\<close>.
\<close>

definition rest_request ::
  "HTTPMethod \<Rightarrow> string \<Rightarrow> json option \<Rightarrow> bool \<Rightarrow> world \<Rightarrow> world \<times> (GError + json option)" where
  "rest_request method url jsonRequestBody want_parser w =
     (let cfg = hawkbit_config w;
          w1 = (case jsonRequestBody of None \<Rightarrow> w
                | Some b \<Rightarrow> g_log DEBUG (''Request body: '' @ json_to_string w b) w);
          token =
            (case auth_token cfg of
               Some t \<Rightarrow> Some (''Authorization: TargetToken '' @ t)
             | None \<Rightarrow>
                 (case gateway_token cfg of
                    Some t \<Rightarrow> Some (''Authorization: GatewayToken '' @ t)
                  | None \<Rightarrow> None));
          headers =
            [''Accept: application/json;charset=UTF-8'']
            @ (case token of None \<Rightarrow> [] | Some h \<Rightarrow> [h])
            @ (if jsonRequestBody \<noteq> None
               then [''Content-Type: application/json;charset=UTF-8''] else []);
          req = \<lparr>req_method = method, req_url = url, req_headers = headers,
                 req_body = jsonRequestBody,
                 req_connect_timeout = connect_timeout cfg, req_timeout = timeout cfg,
                 req_ssl_verify = ssl_verify cfg\<rparr>;
          answer = server w1 (trace w1) req;
          w2 = emit (Perform req) w1
      in if curl_code answer \<noteq> 0 then
           (w2, Inl (GError RHU_HAWKBIT_CLIENT_CURL_ERROR (int (curl_code answer))
                        (curl_strerror answer)))
         else if http_code answer \<noteq> 200 then
           (w2, Inl (GError RHU_HAWKBIT_CLIENT_HTTP_ERROR (http_code answer)
                        (''HTTP request failed: '' @ show_int (http_code answer)
                         @ ''; server response: '' @ payload answer)))
         else if want_parser \<and> payload answer \<noteq> [] then
           (case parsed answer of
              Inl e \<Rightarrow> (w2, Inl e)
            | Inr root \<Rightarrow>
                (g_log DEBUG (''Response body: '' @ json_to_string w root) w2,
                 Inr (Some root)))
         else (w2, Inr None))"

definition feedback ::
  "string \<Rightarrow> string option \<Rightarrow> string option \<Rightarrow> string \<Rightarrow> string \<Rightarrow> world
     \<Rightarrow> world \<times> (GError + json option)" where
  "feedback url ident detail finished execution w =
     (let builder = json_build_status w ident detail finished execution None
      in rest_request POST url (Some builder) False w)"

definition feedback_progress ::
  "string \<Rightarrow> string option \<Rightarrow> string option \<Rightarrow> world \<Rightarrow> world \<times> (GError + json option)" where
  "feedback_progress url ident detail w =
     (let builder = json_build_status w ident detail ''none'' ''proceeding'' None
      in rest_request POST url (Some builder) False w)"

subsection \<open>The polling interval\<close>

text \<open>
  \<open>strptime\<close> with the format \<^verbatim>\<open>%T\<close>, that is \<^verbatim>\<open>%H:%M:%S\<close>, as the C library does it:
  a number is read after optional white space, from at most two digits, the second
  one only while ten times the first does not exceed the field's maximum; it must lie
  in the field's range (0 to 23, 59 and 61). The three fields are stored when the whole
  conversion has succeeded; when it fails anywhere, the structure is left as it was.
  What follows the seconds is not looked at.
\<close>

definition isspace :: "char \<Rightarrow> bool" where
  "isspace c = (c \<in> set [CHR 0x20, CHR 0x09, CHR 0x0A, CHR 0x0B, CHR 0x0C, CHR 0x0D])"

definition isdigit :: "char \<Rightarrow> bool" where
  "isdigit c = (c \<in> set ''0123456789'')"

definition digit_val :: "char \<Rightarrow> int" where
  "digit_val c = int (of_char c) - 48"

definition get_number :: "int \<Rightarrow> string \<Rightarrow> (int \<times> string) option" where
  "get_number to s =
     (case dropWhile isspace s of
        [] \<Rightarrow> None
      | c # rp \<Rightarrow>
          if \<not> isdigit c then None
          else
            (let v = digit_val c;
                 (val, rest) =
                   (case rp of
                      [] \<Rightarrow> (v, rp)
                    | c2 # rp2 \<Rightarrow>
                        if v * 10 \<le> to \<and> isdigit c2 then (v * 10 + digit_val c2, rp2)
                        else (v, rp))
             in if val < 0 \<or> val > to then None else Some (val, rest)))"

definition strptime_T :: "string \<Rightarrow> tm \<Rightarrow> tm" where
  "strptime_T s t =
     (case get_number 23 s of
        None \<Rightarrow> t
      | Some (h, r1) \<Rightarrow>
          (case r1 of
             [] \<Rightarrow> t
           | c1 # r2 \<Rightarrow>
               if c1 \<noteq> CHR '':'' then t
               else
                 (case get_number 59 r2 of
                    None \<Rightarrow> t
                  | Some (m, r3) \<Rightarrow>
                      (case r3 of
                         [] \<Rightarrow> t
                       | c2 # r4 \<Rightarrow>
                           if c2 \<noteq> CHR '':'' then t
                           else
                             (case get_number 61 r4 of
                                None \<Rightarrow> t
                              | Some (sec, r5) \<Rightarrow>
                                  t\<lparr>tm_hour := h, tm_min := m, tm_sec := sec\<rparr>)))))"

definition json_get_sleeptime :: "world \<Rightarrow> json option \<Rightarrow> int" where
  "json_get_sleeptime w root =
     (case json_get_string root [''config'', ''polling'', ''sleep''] of
        None \<Rightarrow> retry_wait (hawkbit_config w)
      | Some sleeptime_str \<Rightarrow>
          (let time = strptime_T sleeptime_str (stack_tm w)
           in tm_sec time + (tm_min time * 60) + (tm_hour time * 60 * 60)))"

subsection \<open>Identify, teardown and the installer bridge\<close>

definition G_SOURCE_REMOVE :: bool where
  "G_SOURCE_REMOVE = False"

definition G_SOURCE_CONTINUE :: bool where
  "G_SOURCE_CONTINUE = True"

definition hawkbit_progress :: "string option \<Rightarrow> world \<Rightarrow> world \<times> bool" where
  "hawkbit_progress msg w =
     (case action_id w of
        Some a \<Rightarrow>
          (let feedback_url =
                 build_api_url (hawkbit_config w) (Some (''deploymentBase/'' @ a @ ''/feedback''))
           in (fst (feedback_progress feedback_url (action_id w) msg w), G_SOURCE_REMOVE))
      | None \<Rightarrow> (w, G_SOURCE_REMOVE))"

definition identify :: "world \<Rightarrow> world \<times> (GError + json option)" where
  "identify w =
     (let w1 = g_log DEBUG ''Identifying ourself to hawkbit server'' w;
          put_config_data_url = build_api_url (hawkbit_config w1) (Some ''configData'');
          builder =
            json_build_status w1 None None ''success'' ''closed'' (device (hawkbit_config w1))
      in rest_request PUT put_config_data_url (Some builder) False w1)"

text \<open>
  \<open>process_artifact_cleanup\<close> only releases the artifact's memory and has no counterpart
  here. \<open>process_deployment_cleanup\<close> is the session teardown: the store of \<open>NULL\<close> and the
  \<open>g_free\<close> of the old string (nothing is freed when the pointer was \<open>NULL\<close>) are events
  of the trace, in the order of the source.
\<close>

definition process_deployment_cleanup :: "world \<Rightarrow> world" where
  "process_deployment_cleanup w =
     (let ptr = action_id w;
          w1 = emit (StoreActionId None) (w\<lparr>action_id := None\<rparr>);
          w2 = (case ptr of None \<Rightarrow> w1 | Some s \<Rightarrow> emit (Free s) w1);
          location = bundle_download_location (hawkbit_config w2)
      in if location \<in> files w2 then
           (if remove_ok w2 location then w2\<lparr>files := files w2 - {location}\<rparr>
            else g_log DEBUG (''Failed to delete file: '' @ location) w2)
         else w2)"

text \<open>
  \<open>install_complete_cb\<close>; the argument is \<open>result->install_success\<close>. A \<open>reboot\<close> that
  succeeds does not return: the model stops there, with the event \<open>Reboot\<close>.
\<close>

definition install_complete_cb :: "bool \<Rightarrow> world \<Rightarrow> world \<times> bool" where
  "install_complete_cb install_success w =
     (case action_id w of
        None \<Rightarrow> (w, G_SOURCE_REMOVE)
      | Some a \<Rightarrow>
          (let feedback_url =
                 build_api_url (hawkbit_config w) (Some (''deploymentBase/'' @ a @ ''/feedback''))
           in if install_success then
                (let w1 = g_log MESSAGE ''Software bundle installed successful.'' w;
                     w2 = fst (feedback feedback_url (action_id w1)
                                 (Some ''Software bundle installed successful.'')
                                 ''success'' ''closed'' w1)
                 in if post_update_reboot (hawkbit_config w2) then
                      (let w3 = process_deployment_cleanup w2;
                           w4 = emit Sync w3
                       in case reboot_errno w4 of
                            None \<Rightarrow> (emit Reboot w4, G_SOURCE_REMOVE)
                          | Some e \<Rightarrow>
                              (let w5 = g_log CRITICAL
                                          (''Failed to reboot: '' @ g_strerror w4 e) w4
                               in (process_deployment_cleanup w5, G_SOURCE_REMOVE)))
                    else (process_deployment_cleanup w2, G_SOURCE_REMOVE))
              else
                (let w1 = g_log CRITICAL ''Failed to install software bundle.'' w;
                     w2 = fst (feedback feedback_url (action_id w1)
                                 (Some ''Failed to install software bundle.'')
                                 ''failure'' ''closed'' w1)
                 in (process_deployment_cleanup w2, G_SOURCE_REMOVE))))"

subsection \<open>Free space and the bundle download\<close>

text \<open>
  \<open>dirname\<close> of the C library. The directory part ends before the last slash, or, when
  the path ends in slashes and is not made of slashes only, before the last slash of
  what is left without them; a path without such a slash gives \<^verbatim>\<open>.\<close>. Slashes at the end
  of the directory part are dropped. When nothing is left the result is \<^verbatim>\<open>/\<close>, or \<^verbatim>\<open>//\<close> if
  the part was the first slash of exactly two.
\<close>

definition strip_slashes :: "string \<Rightarrow> string" where
  "strip_slashes p = rev (dropWhile (\<lambda>c. c = CHR ''/'') (rev p))"

definition last_slash :: "string \<Rightarrow> nat option" where
  "last_slash p =
     (if CHR ''/'' \<in> set p
      then Some (length p - 1 - length (takeWhile (\<lambda>c. c \<noteq> CHR ''/'') (rev p)))
      else None)"

definition dirname :: "string \<Rightarrow> string" where
  "dirname path =
     (case last_slash path of
        None \<Rightarrow> ''.''
      | Some k0 \<Rightarrow>
          (let found =
                 (if k0 \<noteq> 0 \<and> k0 = length path - 1 then
                    (let runp = strip_slashes (take k0 path)
                     in if runp = [] then Some k0 else last_slash runp)
                  else Some k0)
           in case found of
                None \<Rightarrow> ''.''
              | Some k \<Rightarrow>
                  (let dir = strip_slashes (take k path)
                   in if dir = [] then (if k = 1 then take 2 path else take 1 path)
                      else dir)))"

text \<open>
  A value brought into \<open>goffset\<close>, a signed integer of 64 bits, as the cast and the
  multiplication of the source do it: modulo \<open>2 ^ 64\<close>.
\<close>

definition to_goffset :: "int \<Rightarrow> int" where
  "to_goffset x = (x + 2 ^ 63) mod 2 ^ 64 - 2 ^ 63"

definition get_available_space :: "string \<Rightarrow> world \<Rightarrow> GError + int" where
  "get_available_space path w =
     (let rpath = dirname path in
      case statvfs w rpath of
        Inl err \<Rightarrow>
          Inl (GError G_FILE_ERROR G_FILE_ERROR_FAILED
                 (''Failed to calculate free space for '' @ path @ '': '' @ g_strerror w err))
      | Inr (f_bsize, f_bavail) \<Rightarrow>
          Inr (to_goffset (to_goffset f_bsize * to_goffset f_bavail)))"

text \<open>
  \<open>get_binary\<close>, called with a place for the checksum as \<open>download_thread\<close> does. On
  success the result is the digest and the average speed. \<open>fopen\<close> with mode \<^verbatim>\<open>wb\<close>
  creates the file.
\<close>

definition get_binary ::
  "string option \<Rightarrow> string \<Rightarrow> int \<Rightarrow> world \<Rightarrow> world \<times> (GError + string \<times> int)" where
  "get_binary url file filesize w =
     (if \<not> fopen_ok w file then
        (w, Inl (GError G_FILE_ERROR G_FILE_ERROR_FAILED
                   (''Failed to open file for download: '' @ file)))
      else
        (let cfg = hawkbit_config w;
             w1 = w\<lparr>files := insert file (files w)\<rparr>;
             headers =
               [''Accept: application/octet-stream'']
               @ (case auth_token cfg of
                    Some t \<Rightarrow> [''Authorization: TargetToken '' @ t]
                  | None \<Rightarrow>
                      (case gateway_token cfg of
                         Some t \<Rightarrow> [''Authorization: GatewayToken '' @ t]
                       | None \<Rightarrow> []));
             req = \<lparr>dl_url = url, dl_file = file, dl_headers = headers,
                    dl_connect_timeout = connect_timeout cfg, dl_ssl_verify = ssl_verify cfg\<rparr>;
             answer = bundle_server w1 (trace w1) req;
             w2 = emit (PerformDownload req) w1
         in if dl_curl_code answer \<noteq> 0 then
              (w2, Inl (GError RHU_HAWKBIT_CLIENT_CURL_ERROR (int (dl_curl_code answer))
                           (dl_curl_strerror answer)))
            else if dl_http_code answer \<noteq> 200 then
              (w2, Inl (GError RHU_HAWKBIT_CLIENT_HTTP_ERROR (dl_http_code answer)
                           (''HTTP request failed: '' @ show_int (dl_http_code answer))))
            else (w2, Inr (dl_sha1 answer, dl_speed answer))))"

subsection \<open>The download worker\<close>

text \<open>
  \<open>download_thread\<close>. The call of \<open>software_ready_cb\<close> is the event \<open>SoftwareReady\<close> with
  the file handed to the installer. \<open>g_strcmp0\<close> is zero exactly when both strings are
  present and equal, or both are \<open>NULL\<close>; the computed digest is never \<open>NULL\<close> here.
\<close>

definition download_thread :: "artifact \<Rightarrow> world \<Rightarrow> world" where
  "download_thread artifact w =
     (let cfg = hawkbit_config w;
          w1 = g_log MESSAGE (''Start downloading: '' @ str_or_null (download_url artifact)) w;
          (w2, got) = get_binary (download_url artifact) (bundle_download_location cfg)
                        (size_bytes artifact) w1
      in case got of
           Inl error \<Rightarrow>
             (let msg = ''Download failed: '' @ err_message error;
                  w3 = g_log CRITICAL msg w2;
                  w4 = fst (feedback (feedback_url artifact) (action_id w3) (Some msg)
                              ''failure'' ''closed'' w3)
              in process_deployment_cleanup w4)
         | Inr (sha1sum, speed) \<Rightarrow>
             (let msg = ''Download complete. '' @ show_mb_per_s speed @ '' MB/s'';
                  w3 = fst (feedback_progress (feedback_url artifact) (action_id w2)
                              (Some msg) w2);
                  w4 = g_log MESSAGE msg w3
              in if sha1 artifact \<noteq> Some sha1sum then
                   (let msg2 = ''Software: '' @ str_or_null (name artifact) @ '' V''
                                @ str_or_null (version artifact) @ ''. Invalid checksum: ''
                                @ sha1sum @ '' expected '' @ str_or_null (sha1 artifact);
                        w5 = fst (feedback (feedback_url artifact) (action_id w4) (Some msg2)
                                    ''failure'' ''closed'' w4);
                        w6 = g_log CRITICAL msg2 w5
                    in process_deployment_cleanup w6)
                 else
                   (let w5 = g_log MESSAGE ''File checksum OK.'' w4;
                        w6 = fst (feedback_progress (feedback_url artifact) (action_id w5)
                                    (Some ''File checksum OK.'') w5)
                    in emit (SoftwareReady (bundle_download_location cfg)) w6)))"

subsection \<open>Deployment intake\<close>

text \<open>
  \<open>process_deployment\<close>. Every assignment to \<open>action_id\<close> is an event, also the one that
  stores \<open>NULL\<close> when the response has no id. The three places that report a resource
  that cannot be parsed run the same statements on the same state (feedback, the parse
  error, then the label \<open>proc_error\<close>); they are the value \<open>parse_failed\<close>. Joining the
  previous worker and starting the new one are the events \<open>ThreadJoin\<close> and
  \<open>ThreadNew\<close>; the worker's body is \<open>download_thread\<close> applied to the artifact of
  \<open>ThreadNew\<close>.
\<close>

definition process_deployment :: "json option \<Rightarrow> world \<Rightarrow> world \<times> (GError + unit)" where
  "process_deployment req_root w =
     (case action_id w of
        Some a \<Rightarrow>
          (w, Inl (GError RHU_HAWKBIT_CLIENT_ERROR RHU_HAWKBIT_CLIENT_ERROR_ALREADY_IN_PROGRESS
                     (''Deployment '' @ a @ '' is already in progress.'')))
      | None \<Rightarrow>
     (case json_get_string req_root [''_links'', ''deploymentBase'', ''href''] of
        None \<Rightarrow>
          (w, Inl (GError RHU_HAWKBIT_CLIENT_ERROR RHU_HAWKBIT_CLIENT_ERROR_JSON_RESPONSE_PARSE
                     ''Failed to parse deployment base response.''))
      | Some deployment \<Rightarrow>
     (case rest_request GET deployment None True w of
        (w1, Inl e) \<Rightarrow> (w1, Inl e)
      | (w1, Inr resp_root) \<Rightarrow>
     (let new_id = json_get_string resp_root [''id''];
          w2 = emit (StoreActionId new_id) (w1\<lparr>action_id := new_id\<rparr>)
      in case new_id of
           None \<Rightarrow> (w2, Inl (GError (Quark 1) 1 ''Failed to parse deployment base response.''))
         | Some a \<Rightarrow>
     (let cfg = hawkbit_config w2;
          feedback_url = build_api_url cfg (Some (''deploymentBase/'' @ a @ ''/feedback''));
          parse_error = GError RHU_HAWKBIT_CLIENT_ERROR
                          RHU_HAWKBIT_CLIENT_ERROR_JSON_RESPONSE_PARSE
                          ''Failed to parse deployment resource.'';
          parse_failed =
            (let w3 = fst (feedback feedback_url (action_id w2)
                             (Some ''Failed to parse deployment resource.'')
                             ''failure'' ''closed'' w2)
             in (process_deployment_cleanup w3, Inl parse_error))
      in case json_get_array resp_root [''deployment'', ''chunks''] of
           None \<Rightarrow> parse_failed
         | Some [] \<Rightarrow> parse_failed
         | Some (json_chunk0 # other_chunks) \<Rightarrow>
     (let json_chunk = Some json_chunk0 in
      case json_get_array json_chunk [''artifacts''] of
           None \<Rightarrow> parse_failed
         | Some [] \<Rightarrow> parse_failed
         | Some (json_artifact0 # other_artifacts) \<Rightarrow>
     (let json_artifact = Some json_artifact0;
          artifact =
            \<lparr>name = json_get_string json_chunk [''name''],
             version = json_get_string json_chunk [''version''],
             size_bytes = json_get_int json_artifact [''size''],
             download_url =
               (case json_get_string json_artifact [''_links'', ''download'', ''href''] of
                  Some u \<Rightarrow> Some u
                | None \<Rightarrow>
                    json_get_string json_artifact [''_links'', ''download-http'', ''href'']),
             feedback_url = feedback_url,
             sha1 = json_get_string json_artifact [''hashes'', ''sha1'']\<rparr>
      in if download_url artifact = None then parse_failed
         else
     (let w3 = g_log MESSAGE
                 (''New software ready for download. (Name: '' @ str_or_null (name artifact)
                  @ '', Version: '' @ str_or_null (version artifact)
                  @ '', Size: '' @ show_int (size_bytes artifact)
                  @ '', URL: '' @ str_or_null (download_url artifact) @ '')'') w2
      in case get_available_space (bundle_download_location cfg) w3 of
           Inl ierror \<Rightarrow>
             (let w4 = fst (feedback feedback_url (action_id w3) (Some (err_message ierror))
                              ''failure'' ''closed'' w3)
              in (process_deployment_cleanup w4, Inl ierror))
         | Inr freespace \<Rightarrow>
             if freespace < size_bytes artifact then
               (let msg = ''Not enough free space. File size: ''
                            @ show_int (size_bytes artifact)
                            @ ''. Free space: '' @ show_int freespace;
                    w4 = g_log DEBUG msg w3;
                    w5 = fst (feedback feedback_url (action_id w4) (Some msg)
                                ''failure'' ''closed'' w4)
                in (process_deployment_cleanup w5, Inl (GError (Quark 1) 23 msg)))
             else
               (let w4 = (case thread_download w3 of
                            Some t \<Rightarrow> emit (ThreadJoin t) w3
                          | None \<Rightarrow> w3);
                    w5 = emit (ThreadNew artifact) (w4\<lparr>thread_download := Some artifact\<rparr>)
                in (w5, Inr ()))))))))))"

subsection \<open>The poller\<close>

text \<open>
  \<open>ClientData\<close>: \<open>loop_quit\<close> says that \<open>g_main_loop_quit\<close> was called on \<open>loop\<close>.
\<close>

record ClientData =
  loop_quit :: bool
  res :: int
  hawkbit_interval_check_sec :: int
  last_run_sec :: int

text \<open>
  \<open>hawkbit_pull_cb\<close>. The local \<open>res\<close> of the source is \<open>ok\<close> here: it is assigned by the
  base poll, again by \<open>identify\<close> when that runs, and again by \<open>process_deployment\<close> when
  that runs.
\<close>

definition hawkbit_pull_cb :: "ClientData \<Rightarrow> world \<Rightarrow> bool \<times> ClientData \<times> world" where
  "hawkbit_pull_cb d w =
     (let d1 = d\<lparr>last_run_sec := last_run_sec d + 1\<rparr> in
      if last_run_sec d1 < hawkbit_interval_check_sec d1 then (G_SOURCE_CONTINUE, d1, w)
      else
        (let cfg = hawkbit_config w;
             d2 = d1\<lparr>last_run_sec := 0\<rparr>;
             get_tasks_url = build_api_url cfg None;
             w1 = g_log MESSAGE ''Checking for new software...'' w;
             (w2, polled) = rest_request GET get_tasks_url None True w1;
             (ok, d3, w3) =
               (case polled of
                  Inl error \<Rightarrow>
                    (let wf =
                       (if g_error_matches error RHU_HAWKBIT_CLIENT_HTTP_ERROR 401 then
                          (let wa = (if auth_token cfg \<noteq> None then
                                       g_log WARNING
                                         ''Failed to authenticate. Check if auth_token is correct?''
                                         w2
                                     else w2)
                           in if gateway_token cfg \<noteq> None then
                                g_log WARNING
                                  ''Failed to authenticate. Check if gateway_token is correct?''
                                  wa
                              else wa)
                        else
                          g_log WARNING
                            (''Scheduled check for new software failed: '' @ err_message error
                             @ '' ('' @ show_int (err_code error) @ '')'') w2)
                     in (False, d2\<lparr>hawkbit_interval_check_sec := retry_wait cfg\<rparr>, wf))
                | Inr json_root \<Rightarrow>
                    (let d3 = d2\<lparr>hawkbit_interval_check_sec := json_get_sleeptime w2 json_root\<rparr>;
                         (ok1, wi) =
                           (if json_contains json_root [''_links'', ''configData''] then
                              (case identify w2 of
                                 (wi, Inl error) \<Rightarrow> (False, g_log WARNING (err_message error) wi)
                               | (wi, Inr reply) \<Rightarrow> (True, wi))
                            else (True, w2));
                         (ok2, wd) =
                           (if json_contains json_root [''_links'', ''deploymentBase''] then
                              (case process_deployment json_root wi of
                                 (wd, Inl error) \<Rightarrow>
                                   (False,
                                    if g_error_matches error RHU_HAWKBIT_CLIENT_ERROR
                                         RHU_HAWKBIT_CLIENT_ERROR_ALREADY_IN_PROGRESS
                                    then g_log DEBUG (err_message error) wd
                                    else g_log WARNING (err_message error) wd)
                               | (wd, Inr reply) \<Rightarrow> (True, wd))
                            else (ok1, g_log MESSAGE ''No new software.'' wi));
                         wc = (if json_contains json_root [''_links'', ''cancelAction''] then
                                 g_log WARNING ''cancel action not supported'' wd
                               else wd)
                     in (ok2, d3, wc)))
         in if run_once w3 then
              (G_SOURCE_REMOVE, d3\<lparr>res := (if ok then 0 else 1), loop_quit := True\<rparr>, w3)
            else (G_SOURCE_CONTINUE, d3, w3)))"

text \<open>
  The main loop with its one-second timer as the only source: each round is one call of
  \<open>hawkbit_pull_cb\<close>. The loop may run for ever, so it has fuel, the number of seconds
  it is given; \<open>None\<close> says that it has not returned within them.
\<close>

fun g_main_loop_run :: "nat \<Rightarrow> ClientData \<Rightarrow> world \<Rightarrow> (ClientData \<times> world) option" where
  "g_main_loop_run 0 d w = None"
| "g_main_loop_run (Suc n) d w =
     (case hawkbit_pull_cb d w of
        (continue, d', w') \<Rightarrow>
          if loop_quit d' then Some (d', w')
          else if continue then g_main_loop_run n d' w'
          else None)"

text \<open>
  \<open>hawkbit_start_service_sync\<close>, built without \<^verbatim>\<open>WITH_SYSTEMD\<close>; the result is the exit
  code.
\<close>

definition hawkbit_start_service_sync :: "nat \<Rightarrow> world \<Rightarrow> (int \<times> world) option" where
  "hawkbit_start_service_sync fuel w =
     (let cdata = \<lparr>loop_quit = False, res = stack_res w,
                    hawkbit_interval_check_sec = retry_wait (hawkbit_config w),
                    last_run_sec = retry_wait (hawkbit_config w)\<rparr>
      in case g_main_loop_run fuel cdata w of
           None \<Rightarrow> None
         | Some (cdata', w') \<Rightarrow>
             (let code = res cdata'
              in Some (code, if code < 0 then g_log WARNING (g_strerror w' (- code)) w'
                             else w')))"

subsection \<open>Vocabulary of the properties\<close>

text \<open>A header line is an Authorization header when it starts with that field name.\<close>

definition is_authorization :: "string \<Rightarrow> bool" where
  "is_authorization h = (take 14 h = ''Authorization:'')"

text \<open>
  The Authorization headers a request is to carry: the target token if there is one,
  else the gateway token if there is one, else none.
\<close>

definition authorization_headers :: "Config \<Rightarrow> string list" where
  "authorization_headers cfg =
     (case auth_token cfg of
        Some t \<Rightarrow> [''Authorization: TargetToken '' @ t]
      | None \<Rightarrow>
          (case gateway_token cfg of
             Some t \<Rightarrow> [''Authorization: GatewayToken '' @ t]
           | None \<Rightarrow> []))"

text \<open>A terminal feedback is a POST whose envelope has \<open>status.execution = closed\<close>.\<close>

definition is_closed_feedback :: "event \<Rightarrow> bool" where
  "is_closed_feedback e =
     (case e of
        Perform r \<Rightarrow>
          req_method r = POST
          \<and> json_get_string (req_body r) [''status'', ''execution''] = Some ''closed''
      | _ \<Rightarrow> False)"

definition is_software_ready :: "event \<Rightarrow> bool" where
  "is_software_ready e = (case e of SoftwareReady f \<Rightarrow> True | _ \<Rightarrow> False)"

text \<open>The events a step added to the trace.\<close>

definition new_events :: "world \<Rightarrow> world \<Rightarrow> event list" where
  "new_events w w' = drop (length (trace w)) (trace w')"

text \<open>
  A polling sleep of the form \<^verbatim>\<open>HH:MM:SS\<close>: eight characters, two digits in each field,
  colons between them. The result is the three numbers.
\<close>

fun hms_fields :: "string \<Rightarrow> (int \<times> int \<times> int) option" where
  "hms_fields [h1, h2, c1, m1, m2, c2, s1, s2] =
     (if isdigit h1 \<and> isdigit h2 \<and> c1 = CHR '':'' \<and> isdigit m1 \<and> isdigit m2
         \<and> c2 = CHR '':'' \<and> isdigit s1 \<and> isdigit s2
      then Some (10 * digit_val h1 + digit_val h2, 10 * digit_val m1 + digit_val m2,
                 10 * digit_val s1 + digit_val s2)
      else None)"
| "hms_fields other = None"

text \<open>
  The fields whose absence \<open>process_deployment\<close> checks: a first chunk, a first
  artifact in it, and one of the two download links.
\<close>

definition lacks_checked_field :: "json option \<Rightarrow> bool" where
  "lacks_checked_field resp_root =
     (case json_get_array resp_root [''deployment'', ''chunks''] of
        None \<Rightarrow> True
      | Some [] \<Rightarrow> True
      | Some (json_chunk0 # other_chunks) \<Rightarrow>
          (case json_get_array (Some json_chunk0) [''artifacts''] of
             None \<Rightarrow> True
           | Some [] \<Rightarrow> True
           | Some (json_artifact0 # other_artifacts) \<Rightarrow>
               json_get_string (Some json_artifact0) [''_links'', ''download'', ''href''] = None
               \<and> json_get_string (Some json_artifact0) [''_links'', ''download-http'', ''href'']
                   = None))"

text \<open>
  The chunk and the artifact that \<open>process_deployment\<close> reads: element 0 of
  \<open>$.deployment.chunks\<close> and element 0 of its \<open>$.artifacts\<close>.
\<close>

definition first_chunk :: "json option \<Rightarrow> json option" where
  "first_chunk resp_root =
     (case json_get_array resp_root [''deployment'', ''chunks''] of
        None \<Rightarrow> None
      | Some [] \<Rightarrow> None
      | Some (json_chunk0 # other_chunks) \<Rightarrow> Some json_chunk0)"

definition first_artifact :: "json option \<Rightarrow> json option" where
  "first_artifact resp_root =
     (case json_get_array (first_chunk resp_root) [''artifacts''] of
        None \<Rightarrow> None
      | Some [] \<Rightarrow> None
      | Some (json_artifact0 # other_artifacts) \<Rightarrow> Some json_artifact0)"

text \<open>The base poll that a due tick performs: the message, then the GET.\<close>

definition base_poll :: "world \<Rightarrow> world \<times> (GError + json option)" where
  "base_poll w =
     rest_request GET (build_api_url (hawkbit_config w) None) None True
       (g_log MESSAGE ''Checking for new software...'' w)"

text \<open>The download that the worker starts with: the message, then \<open>get_binary\<close>.\<close>

definition worker_download :: "artifact \<Rightarrow> world \<Rightarrow> world \<times> (GError + string \<times> int)" where
  "worker_download artifact w =
     get_binary (download_url artifact) (bundle_download_location (hawkbit_config w))
       (size_bytes artifact)
       (g_log MESSAGE (''Start downloading: '' @ str_or_null (download_url artifact)) w)"

text \<open>The error of a deployment offered while session \<open>a\<close> is open.\<close>

definition already_in_progress :: "string \<Rightarrow> GError" where
  "already_in_progress a =
     GError RHU_HAWKBIT_CLIENT_ERROR RHU_HAWKBIT_CLIENT_ERROR_ALREADY_IN_PROGRESS
       (''Deployment '' @ a @ '' is already in progress.'')"

subsection \<open>Closed forms and named parts of the functions\<close>

text \<open>
  What \<open>rest_request\<close> does, in closed form: the request it performs, its result as a
  function of the server's answer, and the lines it logs. \<open>rest_request_eq\<close> below
  proves that the function is this.
\<close>

definition rest_request_sent :: "Config \<Rightarrow> HTTPMethod \<Rightarrow> string \<Rightarrow> json option \<Rightarrow> request" where
  "rest_request_sent cfg m u b =
     \<lparr>req_method = m, req_url = u,
      req_headers = ''Accept: application/json;charset=UTF-8'' # authorization_headers cfg
         @ (if b = None then [] else [''Content-Type: application/json;charset=UTF-8'']),
      req_body = b, req_connect_timeout = connect_timeout cfg, req_timeout = timeout cfg,
      req_ssl_verify = ssl_verify cfg\<rparr>"

definition rest_request_result :: "bool \<Rightarrow> response \<Rightarrow> GError + json option" where
  "rest_request_result wp answer =
     (if curl_code answer \<noteq> 0 then
        Inl (GError RHU_HAWKBIT_CLIENT_CURL_ERROR (int (curl_code answer)) (curl_strerror answer))
      else if http_code answer \<noteq> 200 then
        Inl (GError RHU_HAWKBIT_CLIENT_HTTP_ERROR (http_code answer)
               (''HTTP request failed: '' @ show_int (http_code answer)
                @ ''; server response: '' @ payload answer))
      else if wp \<and> payload answer \<noteq> [] then
        (case parsed answer of Inl e \<Rightarrow> Inl e | Inr root \<Rightarrow> Inr (Some root))
      else Inr None)"

definition rest_request_logs ::
  "(json \<Rightarrow> string) \<Rightarrow> json option \<Rightarrow> bool \<Rightarrow> response \<Rightarrow> (log_level \<times> string) list" where
  "rest_request_logs to_string b wp answer =
     (case b of None \<Rightarrow> [] | Some j \<Rightarrow> [(DEBUG, ''Request body: '' @ to_string j)])
     @ (if curl_code answer = 0 \<and> http_code answer = 200 \<and> wp \<and> payload answer \<noteq> [] then
          (case parsed answer of Inl e \<Rightarrow> []
           | Inr root \<Rightarrow> [(DEBUG, ''Response body: '' @ to_string root)])
        else [])"

text \<open>
  The envelope of \<open>json_build_status\<close> as a function of the time string; the world only
  supplies the clock.
\<close>

definition status_envelope ::
  "string \<Rightarrow> string option \<Rightarrow> string option \<Rightarrow> string \<Rightarrow> string
     \<Rightarrow> (string \<times> string) list option \<Rightarrow> json" where
  "status_envelope timeString ident detail result execution data =
     JObject
       ((case ident of None \<Rightarrow> [] | Some i \<Rightarrow> [(''id'', JString i)])
        @ [(''time'', JString timeString),
           (''status'',
             JObject
               ([(''result'', JObject [(''finished'', JString result)]),
                 (''execution'', JString execution)]
                @ (case detail of None \<Rightarrow> []
                   | Some d \<Rightarrow> [(''details'', JArray [JString d])])))]
        @ (case data of None \<Rightarrow> []
           | Some kvs \<Rightarrow> [(''data'', JObject (map (\<lambda>(k, v). (k, JString v)) kvs))]))"

text \<open>The request \<open>get_binary\<close> performs once the file is open.\<close>

definition get_binary_sent :: "Config \<Rightarrow> string option \<Rightarrow> string \<Rightarrow> bundle_request" where
  "get_binary_sent cfg url file =
     \<lparr>dl_url = url, dl_file = file,
      dl_headers = ''Accept: application/octet-stream'' # authorization_headers cfg,
      dl_connect_timeout = connect_timeout cfg, dl_ssl_verify = ssl_verify cfg\<rparr>"

text \<open>The request \<open>identify\<close> performs.\<close>

definition identify_sent :: "world \<Rightarrow> request" where
  "identify_sent w =
     rest_request_sent (hawkbit_config w) PUT
       (build_api_url (hawkbit_config w) (Some ''configData''))
       (Some (status_envelope (clock w (length (trace w))) None None ''success'' ''closed''
                (device (hawkbit_config w))))"

text \<open>
  The parts of a tick that polls, named: the warnings after a failed poll, the identify
  step and the deployment step with the success flag they leave, the cancel step, and
  the end of the tick. \<open>hawkbit_pull_cb_due\<close> below proves that \<open>hawkbit_pull_cb\<close> is
  their composition.
\<close>

definition poll_failure_logged :: "GError \<Rightarrow> world \<Rightarrow> world" where
  "poll_failure_logged error w2 =
     (let cfg = hawkbit_config w2 in
      if g_error_matches error RHU_HAWKBIT_CLIENT_HTTP_ERROR 401 then
        (let wa = (if auth_token cfg \<noteq> None then
                     g_log WARNING ''Failed to authenticate. Check if auth_token is correct?'' w2
                   else w2)
         in if gateway_token cfg \<noteq> None then
              g_log WARNING ''Failed to authenticate. Check if gateway_token is correct?'' wa
            else wa)
      else
        g_log WARNING
          (''Scheduled check for new software failed: '' @ err_message error
           @ '' ('' @ show_int (err_code error) @ '')'') w2)"

definition identify_stage :: "json option \<Rightarrow> world \<Rightarrow> bool \<times> world" where
  "identify_stage json_root w2 =
     (if json_contains json_root [''_links'', ''configData''] then
        (case identify w2 of
           (wi, Inl error) \<Rightarrow> (False, g_log WARNING (err_message error) wi)
         | (wi, Inr reply) \<Rightarrow> (True, wi))
      else (True, w2))"

definition deployment_stage :: "json option \<Rightarrow> bool \<times> world \<Rightarrow> bool \<times> world" where
  "deployment_stage json_root before =
     (if json_contains json_root [''_links'', ''deploymentBase''] then
        (case process_deployment json_root (snd before) of
           (wd, Inl error) \<Rightarrow>
             (False,
              if g_error_matches error RHU_HAWKBIT_CLIENT_ERROR
                   RHU_HAWKBIT_CLIENT_ERROR_ALREADY_IN_PROGRESS
              then g_log DEBUG (err_message error) wd
              else g_log WARNING (err_message error) wd)
         | (wd, Inr reply) \<Rightarrow> (True, wd))
      else (fst before, g_log MESSAGE ''No new software.'' (snd before)))"

definition cancel_stage :: "json option \<Rightarrow> world \<Rightarrow> world" where
  "cancel_stage json_root wd =
     (if json_contains json_root [''_links'', ''cancelAction''] then
        g_log WARNING ''cancel action not supported'' wd
      else wd)"

definition tick_end :: "bool \<Rightarrow> ClientData \<Rightarrow> world \<Rightarrow> bool \<times> ClientData \<times> world" where
  "tick_end ok d3 w3 =
     (if run_once w3 then
        (G_SOURCE_REMOVE, d3\<lparr>res := (if ok then 0 else 1), loop_quit := True\<rparr>, w3)
      else (G_SOURCE_CONTINUE, d3, w3))"

text \<open>
  \<open>process_deployment\<close> after its GET, in named parts: the report of a resource that
  cannot be parsed; the artifact read from the first artifact of the first chunk; the
  free-space check with the start of the worker; and \<open>intake\<close>, which is the function
  from the assignment of \<open>action_id\<close> on. \<open>process_deployment_eq\<close> below proves that
  the function is made of them.
\<close>

definition parse_error :: GError where
  "parse_error =
     GError RHU_HAWKBIT_CLIENT_ERROR RHU_HAWKBIT_CLIENT_ERROR_JSON_RESPONSE_PARSE
       ''Failed to parse deployment resource.''"

definition parse_failed :: "string \<Rightarrow> world \<Rightarrow> world \<times> (GError + unit)" where
  "parse_failed url w2 =
     (process_deployment_cleanup
        (fst (feedback url (action_id w2) (Some ''Failed to parse deployment resource.'')
                ''failure'' ''closed'' w2)),
      Inl parse_error)"

definition read_artifact :: "string \<Rightarrow> json option \<Rightarrow> json option \<Rightarrow> artifact" where
  "read_artifact url json_chunk json_artifact =
     \<lparr>name = json_get_string json_chunk [''name''],
      version = json_get_string json_chunk [''version''],
      size_bytes = json_get_int json_artifact [''size''],
      download_url =
        (case json_get_string json_artifact [''_links'', ''download'', ''href''] of
           Some u \<Rightarrow> Some u
         | None \<Rightarrow> json_get_string json_artifact [''_links'', ''download-http'', ''href'']),
      feedback_url = url,
      sha1 = json_get_string json_artifact [''hashes'', ''sha1'']\<rparr>"

definition start_download :: "artifact \<Rightarrow> world \<Rightarrow> world \<times> (GError + unit)" where
  "start_download art w2 =
     (let w3 = g_log MESSAGE
                 (''New software ready for download. (Name: '' @ str_or_null (name art)
                  @ '', Version: '' @ str_or_null (version art)
                  @ '', Size: '' @ show_int (size_bytes art)
                  @ '', URL: '' @ str_or_null (download_url art) @ '')'') w2
      in case get_available_space (bundle_download_location (hawkbit_config w2)) w3 of
           Inl ierror \<Rightarrow>
             (let w4 = fst (feedback (feedback_url art) (action_id w3)
                              (Some (err_message ierror)) ''failure'' ''closed'' w3)
              in (process_deployment_cleanup w4, Inl ierror))
         | Inr freespace \<Rightarrow>
             if freespace < size_bytes art then
               (let msg = ''Not enough free space. File size: ''
                            @ show_int (size_bytes art)
                            @ ''. Free space: '' @ show_int freespace;
                    w4 = g_log DEBUG msg w3;
                    w5 = fst (feedback (feedback_url art) (action_id w4) (Some msg)
                                ''failure'' ''closed'' w4)
                in (process_deployment_cleanup w5, Inl (GError (Quark 1) 23 msg)))
             else
               (let w4 = (case thread_download w3 of
                            Some t \<Rightarrow> emit (ThreadJoin t) w3
                          | None \<Rightarrow> w3);
                    w5 = emit (ThreadNew art) (w4\<lparr>thread_download := Some art\<rparr>)
                in (w5, Inr ())))"

definition intake :: "json option \<Rightarrow> world \<Rightarrow> world \<times> (GError + unit)" where
  "intake resp_root w1 =
     (let new_id = json_get_string resp_root [''id''];
          w2 = emit (StoreActionId new_id) (w1\<lparr>action_id := new_id\<rparr>)
      in case new_id of
           None \<Rightarrow> (w2, Inl (GError (Quark 1) 1 ''Failed to parse deployment base response.''))
         | Some a \<Rightarrow>
             (let url = build_api_url (hawkbit_config w2)
                          (Some (''deploymentBase/'' @ a @ ''/feedback''))
              in case json_get_array resp_root [''deployment'', ''chunks''] of
                   None \<Rightarrow> parse_failed url w2
                 | Some [] \<Rightarrow> parse_failed url w2
                 | Some (json_chunk0 # other_chunks) \<Rightarrow>
                     (case json_get_array (Some json_chunk0) [''artifacts''] of
                        None \<Rightarrow> parse_failed url w2
                      | Some [] \<Rightarrow> parse_failed url w2
                      | Some (json_artifact0 # other_artifacts) \<Rightarrow>
                          if download_url
                               (read_artifact url (Some json_chunk0) (Some json_artifact0)) = None
                          then parse_failed url w2
                          else start_download
                                 (read_artifact url (Some json_chunk0) (Some json_artifact0))
                                 w2)))"

subsection \<open>Concrete worlds\<close>

definition demo_config :: Config where
  "demo_config =
     \<lparr>hawkbit_server = ''hawkbit.example'', tenant_id = ''DEFAULT'', controller_id = ''dev1'',
      ssl = True, ssl_verify = True, auth_token = Some ''t0k'', gateway_token = Some ''gw'',
      connect_timeout = 20, timeout = 60, retry_wait = 60,
      bundle_download_location = ''/tmp/bundle.raucb'', post_update_reboot = False,
      device = Some [(''hw'', ''v1'')]\<rparr>"

text \<open>
  A server that answers from a table of method and URL, and with an empty 200 for
  everything else; a world around it with nothing done yet.
\<close>

definition table_server ::
  "((HTTPMethod \<times> string) \<times> response) list \<Rightarrow> event list \<Rightarrow> request \<Rightarrow> response" where
  "table_server tab tr rq =
     (case map_of tab (req_method rq, req_url rq) of
        Some r \<Rightarrow> r
      | None \<Rightarrow> Response 0 [] 200 [] (Inr JNull))"

definition demo_world :: "((HTTPMethod \<times> string) \<times> response) list \<Rightarrow> world" where
  "demo_world tab =
     \<lparr>hawkbit_config = demo_config, run_once = False, action_id = None,
      thread_download = None, trace = [], logs = [], files = {},
      server = table_server tab,
      bundle_server =
        (\<lambda>tr rq. Download 0 [] 200 1048576 ''60cacbf3d72e1e7834203da608037b1bf83b40e8''),
      fopen_ok = (\<lambda>p. True), remove_ok = (\<lambda>p. True),
      statvfs = (\<lambda>p. Inr (4096, 1000)), reboot_errno = None,
      g_strerror = (\<lambda>e. ''Operation not permitted''),
      json_to_string = (\<lambda>j. ''{}''),
      clock = (\<lambda>n. ''20200101T000000''),
      stack_tm = \<lparr>tm_sec = 7, tm_min = 8, tm_hour = 9\<rparr>, stack_res = 5\<rparr>"

definition base_url :: string where
  "base_url = ''https://hawkbit.example/DEFAULT/controller/v1/dev1''"

definition demo_artifact :: artifact where
  "demo_artifact =
     \<lparr>name = Some ''bundle'', version = Some ''1.0'', size_bytes = 1024,
      download_url = Some ''https://hawkbit.example/dl/bundle.raucb'',
      feedback_url = base_url @ ''/deploymentBase/42/feedback'',
      sha1 = Some ''da39a3ee5e6b4b0d3255bfef95601890afd80709''\<rparr>"

text \<open>
  A 200 answer whose body (abbreviated here) json-glib parses to the given document; a
  server that cannot be reached; poller data one second before a poll is due.
\<close>

definition json_reply :: "json \<Rightarrow> response" where
  "json_reply doc = Response 0 [] 200 ''{...}'' (Inr doc)"

definition sleep_doc :: json where
  "sleep_doc = JObject [(''config'', JObject [(''polling'', JObject [(''sleep'', JString ''00:05:00'')])])]"

definition due_data :: ClientData where
  "due_data = \<lparr>loop_quit = False, res = 0, hawkbit_interval_check_sec = 1800, last_run_sec = 1799\<rparr>"

definition unreachable :: response where
  "unreachable = Response 7 ''Couldn't connect to server'' 0 [] (Inr JNull)"

text \<open>
  A session whose bundle file is on disk and cannot be removed (a read-only directory,
  say).
\<close>

definition stuck_world :: world where
  "stuck_world =
     (demo_world [])\<lparr>action_id := Some ''42'', files := {''/tmp/bundle.raucb''},
                      remove_ok := (\<lambda>p. False)\<rparr>"

text \<open>A world in which session 42 is open.\<close>

definition session_world :: "((HTTPMethod \<times> string) \<times> response) list \<Rightarrow> world" where
  "session_world tab = (demo_world tab)\<lparr>action_id := Some ''42''\<rparr>"

text \<open>A base-poll response that offers deployment 43.\<close>

definition offer_doc :: json where
  "offer_doc =
     JObject [(''config'', JObject [(''polling'', JObject [(''sleep'', JString ''00:05:00'')])]),
              (''_links'', JObject [(''deploymentBase'',
                 JObject [(''href'', JString ''https://hawkbit.example/dep/43'')])])]"

text \<open>
  Deployment resources for the offer above: one without id, one with an id and no
  chunk, and one whose artifact has a download link and nothing else.
\<close>

definition dep_url :: string where
  "dep_url = ''https://hawkbit.example/dep/43''"

definition no_id_doc :: json where
  "no_id_doc = JObject [(''deployment'', JObject [(''chunks'', JArray [])])]"

definition no_chunks_doc :: json where
  "no_chunks_doc = JObject [(''id'', JString ''43''), (''deployment'', JObject [(''chunks'', JArray [])])]"

definition no_hash_doc :: json where
  "no_hash_doc =
     JObject [(''id'', JString ''43''),
              (''deployment'', JObject [(''chunks'', JArray [JObject [(''artifacts'',
                 JArray [JObject [(''_links'', JObject [(''download'',
                   JObject [(''href'', JString ''https://hawkbit.example/dl/bundle.raucb'')])])]])]])])]"

text \<open>
  A world started in one-shot mode; a base-poll response that asks the device to
  identify itself; a server that answers 500.
\<close>

definition one_shot_world :: "((HTTPMethod \<times> string) \<times> response) list \<Rightarrow> world" where
  "one_shot_world tab = (demo_world tab)\<lparr>run_once := True\<rparr>"

definition identify_offer_doc :: json where
  "identify_offer_doc =
     JObject [(''_links'', JObject [(''configData'',
                 JObject [(''href'', JString ''https://hawkbit.example/cfg'')])])]"

definition server_error :: response where
  "server_error = Response 0 [] 500 ''Internal Server Error'' (Inr JNull)"

section \<open>Properties\<close>

subsection \<open>Closed forms of the transport functions\<close>

lemma rest_request_eq:
  "rest_request m u b wp w =
     (w\<lparr>trace := trace w @ [Perform (rest_request_sent (hawkbit_config w) m u b)],
        logs := logs w @ rest_request_logs (json_to_string w) b wp
                  (server w (trace w) (rest_request_sent (hawkbit_config w) m u b))\<rparr>,
      rest_request_result wp (server w (trace w) (rest_request_sent (hawkbit_config w) m u b)))"
proof -
  define cfg where "cfg = hawkbit_config w"
  define req where "req = rest_request_sent cfg m u b"
  have tok: "(case (case auth_token cfg of
               Some t \<Rightarrow> Some (''Authorization: TargetToken '' @ t)
             | None \<Rightarrow>
                 (case gateway_token cfg of
                    Some t \<Rightarrow> Some (''Authorization: GatewayToken '' @ t)
                  | None \<Rightarrow> None)) of None \<Rightarrow> [] | Some h \<Rightarrow> [h]) = authorization_headers cfg"
    by (simp add: authorization_headers_def split: option.splits)
  show ?thesis
  proof (cases b)
    case None
    then show ?thesis
      unfolding rest_request_def Let_def cfg_def [symmetric] tok
      by (cases "parsed (server w (trace w) (rest_request_sent cfg m u None))")
         (simp_all add: rest_request_sent_def rest_request_result_def rest_request_logs_def
            g_log_def emit_def cfg_def)
  next
    case (Some j)
    then show ?thesis
      unfolding rest_request_def Let_def cfg_def [symmetric] tok
      by (cases "parsed (server w (trace w) (rest_request_sent cfg m u (Some j)))")
         (simp_all add: rest_request_sent_def rest_request_result_def rest_request_logs_def
            g_log_def emit_def cfg_def)
  qed
qed

lemma filter_authorization_headers:
  "filter is_authorization (authorization_headers cfg) = authorization_headers cfg"
  by (simp add: authorization_headers_def is_authorization_def split: option.splits)

lemma rest_request_sent_authorization:
  "filter is_authorization (req_headers (rest_request_sent cfg m u b)) = authorization_headers cfg"
  by (simp add: rest_request_sent_def filter_authorization_headers is_authorization_def)

subsection \<open>Authorization headers\<close>

text \<open>
  C7. Every request built by \<open>rest_request\<close> and by \<open>get_binary\<close> (which builds one
  whenever it can open the file) carries at most one Authorization header: the target
  token's when a target token is configured, also when a gateway token is configured
  too; the gateway token's when only that one is configured; none when neither is.
\<close>

theorem one_authorization_header:
  "\<exists>req dreq.
     trace (fst (rest_request m u b wp w)) = trace w @ [Perform req]
     \<and> filter is_authorization (req_headers req) = authorization_headers (hawkbit_config w)
     \<and> trace (fst (get_binary url file filesize w))
         = trace w @ (if fopen_ok w file then [PerformDownload dreq] else [])
     \<and> filter is_authorization (dl_headers dreq) = authorization_headers (hawkbit_config w)
     \<and> length (authorization_headers (hawkbit_config w)) \<le> 1
     \<and> authorization_headers (hawkbit_config w) =
          (case auth_token (hawkbit_config w) of
             Some t \<Rightarrow> [''Authorization: TargetToken '' @ t]
           | None \<Rightarrow>
               (case gateway_token (hawkbit_config w) of
                  Some t \<Rightarrow> [''Authorization: GatewayToken '' @ t]
                | None \<Rightarrow> []))"
proof -
  let ?cfg = "hawkbit_config w"
  let ?req = "rest_request_sent ?cfg m u b"
  let ?dreq = "\<lparr>dl_url = url, dl_file = file,
         dl_headers = ''Accept: application/octet-stream'' # authorization_headers ?cfg,
         dl_connect_timeout = connect_timeout ?cfg, dl_ssl_verify = ssl_verify ?cfg\<rparr>"
  have 1: "trace (fst (rest_request m u b wp w)) = trace w @ [Perform ?req]"
    by (simp add: rest_request_eq)
  have 2: "filter is_authorization (req_headers ?req) = authorization_headers ?cfg"
    by (rule rest_request_sent_authorization)
  have 3: "trace (fst (get_binary url file filesize w))
         = trace w @ (if fopen_ok w file then [PerformDownload ?dreq] else [])"
    by (simp add: get_binary_def Let_def emit_def authorization_headers_def)
  have 4: "filter is_authorization (dl_headers ?dreq) = authorization_headers ?cfg"
    by (simp add: filter_authorization_headers is_authorization_def)
  have 5: "length (authorization_headers ?cfg) \<le> 1"
    by (simp add: authorization_headers_def split: option.splits)
  have 6: "authorization_headers ?cfg =
          (case auth_token ?cfg of
             Some t \<Rightarrow> [''Authorization: TargetToken '' @ t]
           | None \<Rightarrow>
               (case gateway_token ?cfg of
                  Some t \<Rightarrow> [''Authorization: GatewayToken '' @ t]
                | None \<Rightarrow> []))"
    by (simp add: authorization_headers_def)
  from 1 2 3 4 5 6 show ?thesis by blast
qed

theorem one_authorization_header_witness:
  "\<exists>req dreq.
     trace (fst (rest_request GET base_url None True (demo_world []))) = [Perform req]
     \<and> filter is_authorization (req_headers req) = [''Authorization: TargetToken t0k'']
     \<and> trace (fst (get_binary None ''/tmp/bundle.raucb'' 0 (demo_world [])))
         = [PerformDownload dreq]
     \<and> filter is_authorization (dl_headers dreq) = [''Authorization: TargetToken t0k'']"
proof -
  have cfg: "hawkbit_config (demo_world []) = demo_config"
    and tr: "trace (demo_world []) = []"
    and fo: "fopen_ok (demo_world []) ''/tmp/bundle.raucb''"
    by (simp_all add: demo_world_def)
  have ah: "authorization_headers demo_config = [''Authorization: TargetToken t0k'']"
    by (simp add: authorization_headers_def demo_config_def)
  from one_authorization_header
         [of GET base_url None True "demo_world []" None "''/tmp/bundle.raucb''" 0]
  obtain req dreq where
    "trace (fst (rest_request GET base_url None True (demo_world []))) = [Perform req]"
    "filter is_authorization (req_headers req) = [''Authorization: TargetToken t0k'']"
    "trace (fst (get_binary None ''/tmp/bundle.raucb'' 0 (demo_world [])))
       = [PerformDownload dreq]"
    "filter is_authorization (dl_headers dreq) = [''Authorization: TargetToken t0k'']"
    unfolding cfg tr ah using fo by auto
  then show ?thesis by blast
qed

subsection \<open>The installer bridge without a session\<close>

text \<open>
  C9. When the installer's completion callback runs while the action id is \<open>NULL\<close>, it
  does nothing: the world it returns is the world it was given (no transfer, no
  teardown, no file removed, no reboot), and the source is removed.
\<close>

theorem install_complete_without_session:
  "action_id w = None \<Longrightarrow> install_complete_cb install_success w = (w, G_SOURCE_REMOVE)"
  by (simp add: install_complete_cb_def)

theorem install_complete_without_session_witness:
  "action_id (demo_world []) = None
   \<and> install_complete_cb True (demo_world []) = (demo_world [], G_SOURCE_REMOVE)"
  using install_complete_without_session [of "demo_world []" True]
  by (simp add: demo_world_def)

subsection \<open>The poller's interval\<close>

lemma base_poll_frame:
  "fst (base_poll w) = w\<lparr>trace := trace (fst (base_poll w)), logs := logs (fst (base_poll w))\<rparr>"
  by (simp add: base_poll_def rest_request_eq g_log_def)

lemma json_get_sleeptime_frame:
  "hawkbit_config w' = hawkbit_config w \<Longrightarrow> stack_tm w' = stack_tm w
   \<Longrightarrow> json_get_sleeptime w' root = json_get_sleeptime w root"
  by (simp add: json_get_sleeptime_def split: option.splits)

subsection \<open>A tick that polls, step by step\<close>

lemma hawkbit_pull_cb_due:
  assumes "\<not> last_run_sec d + 1 < hawkbit_interval_check_sec d"
  shows "hawkbit_pull_cb d w =
     (case base_poll w of
        (w2, Inl error) \<Rightarrow>
          tick_end False
            (d\<lparr>last_run_sec := 0, hawkbit_interval_check_sec := retry_wait (hawkbit_config w)\<rparr>)
            (poll_failure_logged error w2)
      | (w2, Inr root) \<Rightarrow>
          tick_end (fst (deployment_stage root (identify_stage root w2)))
            (d\<lparr>last_run_sec := 0, hawkbit_interval_check_sec := json_get_sleeptime w2 root\<rparr>)
            (cancel_stage root (snd (deployment_stage root (identify_stage root w2)))))"
proof -
  obtain w2 polled where bp: "base_poll w = (w2, polled)" by (cases "base_poll w")
  then have rr: "rest_request GET (build_api_url (hawkbit_config w) None) None True
       (g_log MESSAGE ''Checking for new software...'' w) = (w2, polled)"
    by (simp add: base_poll_def)
  have w2: "w2 = w\<lparr>trace := trace w2, logs := logs w2\<rparr>"
    using base_poll_frame [of w] bp by simp
  have cfg: "hawkbit_config w2 = hawkbit_config w"
    by (subst w2) simp
  have d12: "d\<lparr>last_run_sec := last_run_sec d + 1\<rparr>\<lparr>last_run_sec := 0\<rparr> = d\<lparr>last_run_sec := 0\<rparr>"
    by simp
  have due: "(last_run_sec (d\<lparr>last_run_sec := last_run_sec d + 1\<rparr>)
                < hawkbit_interval_check_sec (d\<lparr>last_run_sec := last_run_sec d + 1\<rparr>)) = False"
    using assms by simp
  show ?thesis
  proof (cases polled)
    case (Inl e)
    have pf: "(if g_error_matches e RHU_HAWKBIT_CLIENT_HTTP_ERROR 401 then
                 if gateway_token (hawkbit_config w) \<noteq> None then
                   g_log WARNING ''Failed to authenticate. Check if gateway_token is correct?''
                     (if auth_token (hawkbit_config w) \<noteq> None then
                        g_log WARNING ''Failed to authenticate. Check if auth_token is correct?'' w2
                      else w2)
                 else
                   (if auth_token (hawkbit_config w) \<noteq> None then
                      g_log WARNING ''Failed to authenticate. Check if auth_token is correct?'' w2
                    else w2)
               else
                 g_log WARNING
                   (''Scheduled check for new software failed: '' @ err_message e
                    @ '' ('' @ show_int (err_code e) @ '')'') w2) = poll_failure_logged e w2"
      by (simp only: poll_failure_logged_def Let_def cfg)
    show ?thesis
      unfolding hawkbit_pull_cb_def
      by (simp only: Let_def due if_False rr prod.case Inl sum.case d12 pf bp tick_end_def)
  next
    case (Inr root)
    obtain ok1 wi where st1: "identify_stage root w2 = (ok1, wi)"
      by (cases "identify_stage root w2")
    obtain ok2 wd where st2: "deployment_stage root (ok1, wi) = (ok2, wd)"
      by (cases "deployment_stage root (ok1, wi)")
    have st2': "(if json_contains root [''_links'', ''deploymentBase''] then
               (case process_deployment root wi of
                  (wd, Inl error) \<Rightarrow>
                    (False,
                     if g_error_matches error RHU_HAWKBIT_CLIENT_ERROR
                          RHU_HAWKBIT_CLIENT_ERROR_ALREADY_IN_PROGRESS
                     then g_log DEBUG (err_message error) wd
                     else g_log WARNING (err_message error) wd)
                | (wd, Inr reply) \<Rightarrow> (True, wd))
             else (ok1, g_log MESSAGE ''No new software.'' wi)) = (ok2, wd)"
      using st2 by (simp only: deployment_stage_def fst_conv snd_conv)
    show ?thesis
      unfolding hawkbit_pull_cb_def
      by (simp only: Let_def due if_False rr prod.case Inr sum.case d12
            identify_stage_def [symmetric] st1 st2' bp st2 fst_conv snd_conv
            cancel_stage_def tick_end_def)
  qed
qed

lemma tick_end_data:
  "hawkbit_interval_check_sec (fst (snd (tick_end ok d3 w3))) = hawkbit_interval_check_sec d3"
  by (simp add: tick_end_def)

lemma pull_due_interval:
  assumes "\<not> last_run_sec d + 1 < hawkbit_interval_check_sec d"
  shows "hawkbit_interval_check_sec (fst (snd (hawkbit_pull_cb d w))) =
           (case snd (base_poll w) of
              Inl e \<Rightarrow> retry_wait (hawkbit_config w)
            | Inr root \<Rightarrow> json_get_sleeptime w root)"
proof -
  obtain w2 polled where bp: "base_poll w = (w2, polled)" by (cases "base_poll w")
  from base_poll_frame [of w] bp have w2: "w2 = w\<lparr>trace := trace w2, logs := logs w2\<rparr>"
    by simp
  have "hawkbit_config w2 = hawkbit_config w" "stack_tm w2 = stack_tm w"
    by (subst w2, simp)+
  then have sl: "json_get_sleeptime w2 root = json_get_sleeptime w root" for root
    by (rule json_get_sleeptime_frame)
  show ?thesis
    by (cases polled) (simp_all add: hawkbit_pull_cb_due [OF assms] bp tick_end_data sl)
qed

lemma isdigit_val: "isdigit c \<Longrightarrow> 0 \<le> digit_val c \<and> digit_val c \<le> 9 \<and> \<not> isspace c"
  by (auto simp: isdigit_def digit_val_def isspace_def)

lemma get_number_two_digits:
  assumes "isdigit a" "isdigit b" "10 * digit_val a + digit_val b \<le> to"
  shows "get_number to (a # b # rest) = Some (10 * digit_val a + digit_val b, rest)"
proof -
  from isdigit_val [OF assms(1)] isdigit_val [OF assms(2)] assms(3)
  have "digit_val a * 10 \<le> to" "0 \<le> 10 * digit_val a + digit_val b" "\<not> isspace a"
    by auto
  with assms show ?thesis
    by (simp add: get_number_def mult.commute)
qed

lemma strptime_T_hms:
  assumes "hms_fields s = Some (h, m, sec)" "h < 24" "m < 60" "sec < 60"
  shows "strptime_T s t = \<lparr>tm_sec = sec, tm_min = m, tm_hour = h\<rparr>"
proof -
  from assms(1) obtain h1 h2 m1 m2 s1 s2 where
    s: "s = [h1, h2, CHR '':'', m1, m2, CHR '':'', s1, s2]"
    and d: "isdigit h1" "isdigit h2" "isdigit m1" "isdigit m2" "isdigit s1" "isdigit s2"
    and v: "h = 10 * digit_val h1 + digit_val h2" "m = 10 * digit_val m1 + digit_val m2"
           "sec = 10 * digit_val s1 + digit_val s2"
    by (auto elim!: hms_fields.elims split: if_splits)
  have gh: "get_number 23 s = Some (h, [CHR '':'', m1, m2, CHR '':'', s1, s2])"
    unfolding s v using d assms(2) v by (intro get_number_two_digits) auto
  have gm: "get_number 59 [m1, m2, CHR '':'', s1, s2] = Some (m, [CHR '':'', s1, s2])"
    unfolding v using d assms(3) v by (intro get_number_two_digits) auto
  have gs: "get_number 61 [s1, s2] = Some (sec, [])"
    unfolding v using d assms(4) v by (intro get_number_two_digits) auto
  show ?thesis
    by (cases t) (simp add: strptime_T_def gh gm gs)
qed


lemma base_poll_result:
  "snd (base_poll w) =
     rest_request_result True
       (server w (trace w)
          (rest_request_sent (hawkbit_config w) GET (build_api_url (hawkbit_config w) None) None))"
  by (simp add: base_poll_def rest_request_eq g_log_def)

lemma demo_base_url: "build_api_url demo_config None = base_url"
  by (simp add: build_api_url_def demo_config_def base_url_def)

lemma demo_base_poll:
  "snd (base_poll (demo_world [((GET, base_url), r)])) = rest_request_result True r"
  by (simp add: base_poll_result demo_world_def demo_base_url table_server_def
        rest_request_sent_def)

text \<open>
  C6. On a tick that performs the base poll: when the GET succeeds and the response
  carries a \<open>config.polling.sleep\<close> of the form \<^verbatim>\<open>HH:MM:SS\<close> (two digits each, hours below
  24, minutes and seconds below 60), the new polling interval is
  \<open>hours * 3600 + minutes * 60 + seconds\<close>; when the GET fails, it is \<open>retry_wait\<close>.
\<close>

theorem polling_interval_after_poll:
  assumes "\<not> last_run_sec d + 1 < hawkbit_interval_check_sec d"
  shows "case snd (base_poll w) of
           Inl e \<Rightarrow>
             hawkbit_interval_check_sec (fst (snd (hawkbit_pull_cb d w)))
               = retry_wait (hawkbit_config w)
         | Inr root \<Rightarrow>
             (\<forall>s h m sec.
                json_get_string root [''config'', ''polling'', ''sleep''] = Some s
                \<and> hms_fields s = Some (h, m, sec) \<and> h < 24 \<and> m < 60 \<and> sec < 60
                \<longrightarrow> hawkbit_interval_check_sec (fst (snd (hawkbit_pull_cb d w)))
                      = h * 3600 + m * 60 + sec)"
proof (cases "snd (base_poll w)")
  case (Inl e)
  then show ?thesis by (simp add: pull_due_interval [OF assms])
next
  case (Inr root)
  have "json_get_sleeptime w root = h * 3600 + m * 60 + sec"
    if "json_get_string root [''config'', ''polling'', ''sleep''] = Some s"
      and "hms_fields s = Some (h, m, sec)" and "h < 24" and "m < 60" and "sec < 60"
    for s h m sec
    using that by (simp add: json_get_sleeptime_def strptime_T_hms)
  with Inr show ?thesis by (simp add: pull_due_interval [OF assms])
qed

theorem polling_interval_after_poll_witness:
  "hawkbit_interval_check_sec
     (fst (snd (hawkbit_pull_cb due_data (demo_world [((GET, base_url), json_reply sleep_doc)]))))
     = 300
   \<and> hawkbit_interval_check_sec
       (fst (snd (hawkbit_pull_cb due_data (demo_world [((GET, base_url), unreachable)]))))
     = 60"
proof -
  have due: "\<not> last_run_sec due_data + 1 < hawkbit_interval_check_sec due_data"
    by (simp add: due_data_def)
  have ok: "snd (base_poll (demo_world [((GET, base_url), json_reply sleep_doc)]))
              = Inr (Some sleep_doc)"
    by (simp add: demo_base_poll rest_request_result_def json_reply_def)
  have str: "json_get_string (Some sleep_doc) [''config'', ''polling'', ''sleep'']
               = Some ''00:05:00''"
    by (simp add: json_get_string_def sleep_doc_def)
  have hms: "hms_fields ''00:05:00'' = Some (0, 5, 0)"
    by (simp add: isdigit_def digit_val_def)
  have bad: "snd (base_poll (demo_world [((GET, base_url), unreachable)]))
               = Inl (GError RHU_HAWKBIT_CLIENT_CURL_ERROR 7 ''Couldn't connect to server'')"
    by (simp add: demo_base_poll rest_request_result_def unreachable_def)
  have rw: "retry_wait (hawkbit_config (demo_world t)) = 60" for t
    by (simp add: demo_world_def demo_config_def)
  from polling_interval_after_poll [OF due, of "demo_world [((GET, base_url), json_reply sleep_doc)]"]
       polling_interval_after_poll [OF due, of "demo_world [((GET, base_url), unreachable)]"]
  show ?thesis
    using str hms by (simp add: ok bad rw)
qed

text \<open>
  C10. When a successful base poll's response has no string at \<open>config.polling.sleep\<close>,
  the sleep time computed is \<open>retry_wait\<close>, and that is the new polling interval,
  whatever the interval was before.
\<close>

theorem sleeptime_defaults_to_retry_wait:
  assumes "\<not> last_run_sec d + 1 < hawkbit_interval_check_sec d"
    and "snd (base_poll w) = Inr root"
    and "json_get_string root [''config'', ''polling'', ''sleep''] = None"
  shows "json_get_sleeptime (fst (base_poll w)) root = retry_wait (hawkbit_config w)
         \<and> hawkbit_interval_check_sec (fst (snd (hawkbit_pull_cb d w)))
             = retry_wait (hawkbit_config w)"
proof -
  have "hawkbit_config (fst (base_poll w)) = hawkbit_config w"
    by (subst base_poll_frame) simp
  with assms(3) have "json_get_sleeptime (fst (base_poll w)) root = retry_wait (hawkbit_config w)"
    by (simp add: json_get_sleeptime_def)
  moreover from assms(3) have "json_get_sleeptime w root = retry_wait (hawkbit_config w)"
    by (simp add: json_get_sleeptime_def)
  ultimately show ?thesis
    using assms(2) by (simp add: pull_due_interval [OF assms(1)])
qed

theorem sleeptime_defaults_to_retry_wait_witness:
  "hawkbit_interval_check_sec due_data = 1800
   \<and> hawkbit_interval_check_sec
       (fst (snd (hawkbit_pull_cb due_data (demo_world [((GET, base_url), json_reply (JObject []))]))))
     = 60"
proof -
  have due: "\<not> last_run_sec due_data + 1 < hawkbit_interval_check_sec due_data"
    by (simp add: due_data_def)
  have ok: "snd (base_poll (demo_world [((GET, base_url), json_reply (JObject []))]))
              = Inr (Some (JObject []))"
    by (simp add: demo_base_poll rest_request_result_def json_reply_def)
  have str: "json_get_string (Some (JObject [])) [''config'', ''polling'', ''sleep''] = None"
    by (simp add: json_get_string_def)
  have rw: "retry_wait (hawkbit_config (demo_world t)) = 60" for t
    by (simp add: demo_world_def demo_config_def)
  from sleeptime_defaults_to_retry_wait [OF due ok str]
  show ?thesis by (simp add: rw due_data_def)
qed

subsection \<open>The status envelope\<close>

lemma json_build_status_eq:
  "json_build_status w i d r e data = status_envelope (clock w (length (trace w))) i d r e data"
  by (simp add: json_build_status_def status_envelope_def)

lemma status_envelope_members:
  "json_path [''id''] (status_envelope ts i d r e data) = map_option JString i"
  "json_path [''time''] (status_envelope ts i d r e data) = Some (JString ts)"
  "json_path [''status'', ''result'', ''finished''] (status_envelope ts i d r e data)
     = Some (JString r)"
  "json_path [''status'', ''execution''] (status_envelope ts i d r e data) = Some (JString e)"
  "json_path [''status'', ''details''] (status_envelope ts i d r e data)
     = map_option (\<lambda>s. JArray [JString s]) d"
  "json_path [''data''] (status_envelope ts i d r e data)
     = map_option (\<lambda>kvs. JObject (map (\<lambda>(k, v). (k, JString v)) kvs)) data"
  by (cases i; cases d; cases data; simp add: status_envelope_def)+

text \<open>
  C8, as amended. In the document built by \<open>json_build_status\<close>: \<open>id\<close> is there exactly
  when an id was given, and holds it; \<open>time\<close> is always there; \<open>status.details\<close> is there
  exactly when a detail was given, as the array of that one string; \<open>data\<close> is there
  exactly when a table was given, empty or not, with one string member for each entry.
\<close>

theorem status_members:
  "json_path [''id''] (json_build_status w ident detail result execution data)
     = map_option JString ident
   \<and> json_path [''time''] (json_build_status w ident detail result execution data)
     = Some (JString (clock w (length (trace w))))
   \<and> json_path [''status'', ''details''] (json_build_status w ident detail result execution data)
     = map_option (\<lambda>s. JArray [JString s]) detail
   \<and> json_path [''data''] (json_build_status w ident detail result execution data)
     = map_option (\<lambda>kvs. JObject (map (\<lambda>(k, v). (k, JString v)) kvs)) data"
  by (simp add: json_build_status_eq status_envelope_members)

theorem status_members_witness:
  "json_path [''id'']
     (json_build_status (demo_world []) (Some ''42'') None ''failure'' ''closed'' None)
     = Some (JString ''42'')
   \<and> json_path [''time'']
     (json_build_status (demo_world []) (Some ''42'') None ''failure'' ''closed'' None)
     = Some (JString ''20200101T000000'')
   \<and> json_path [''status'', ''details'']
     (json_build_status (demo_world []) (Some ''42'') None ''failure'' ''closed'' None)
     = None
   \<and> json_path [''data'']
     (json_build_status (demo_world []) (Some ''42'') None ''failure'' ''closed'' None)
     = None"
  using status_members [of "demo_world []" "Some ''42''" None "''failure''" "''closed''" None]
  by (simp add: demo_world_def)

text \<open>
  The claim as stated lets \<open>data\<close> appear only for a table that is not empty. A table
  without entries is not \<open>NULL\<close>, and the member is built, empty.
\<close>

theorem status_data_counterexample:
  "json_path [''data''] (json_build_status (demo_world []) None None ''success'' ''closed'' (Some []))
     = Some (JObject [])"
  by (simp add: json_build_status_eq status_envelope_members)

subsection \<open>Session teardown\<close>

lemma cleanup_fields:
  "action_id (process_deployment_cleanup w) = None"
  "trace (process_deployment_cleanup w)
     = trace w @ StoreActionId None # (case action_id w of None \<Rightarrow> [] | Some s \<Rightarrow> [Free s])"
  "files (process_deployment_cleanup w)
     = (if remove_ok w (bundle_download_location (hawkbit_config w))
        then files w - {bundle_download_location (hawkbit_config w)} else files w)"
  "logs (process_deployment_cleanup w)
     = logs w @ (if bundle_download_location (hawkbit_config w) \<in> files w
                    \<and> \<not> remove_ok w (bundle_download_location (hawkbit_config w))
                 then [(DEBUG, ''Failed to delete file: ''
                               @ bundle_download_location (hawkbit_config w))]
                 else [])"
  "thread_download (process_deployment_cleanup w) = thread_download w"
  "hawkbit_config (process_deployment_cleanup w) = hawkbit_config w"
  by (cases "action_id w"; simp add: process_deployment_cleanup_def Let_def emit_def g_log_def)+

text \<open>
  C2, as amended. When \<open>process_deployment_cleanup\<close> has run, the action id is \<open>NULL\<close>;
  the store of \<open>NULL\<close> comes before the old string is freed and nothing else is done to
  them; and the file at the bundle download location no longer exists if \<open>g_remove\<close>
  succeeds on it. If \<open>g_remove\<close> fails, the files are as before and a file that was
  there is reported at debug level.
\<close>

theorem teardown_effects:
  "action_id (process_deployment_cleanup w) = None
   \<and> trace (process_deployment_cleanup w)
       = trace w @ StoreActionId None # (case action_id w of None \<Rightarrow> [] | Some s \<Rightarrow> [Free s])
   \<and> (if remove_ok w (bundle_download_location (hawkbit_config w))
       then bundle_download_location (hawkbit_config w) \<notin> files (process_deployment_cleanup w)
       else files (process_deployment_cleanup w) = files w
            \<and> logs (process_deployment_cleanup w)
                = logs w @ (if bundle_download_location (hawkbit_config w) \<in> files w
                            then [(DEBUG, ''Failed to delete file: ''
                                          @ bundle_download_location (hawkbit_config w))]
                            else []))"
  by (simp add: cleanup_fields)

theorem teardown_effects_witness:
  "action_id (process_deployment_cleanup ((demo_world [])\<lparr>action_id := Some ''42'', files := {''/tmp/bundle.raucb''}\<rparr>)) = None
   \<and> trace (process_deployment_cleanup ((demo_world [])\<lparr>action_id := Some ''42'', files := {''/tmp/bundle.raucb''}\<rparr>))
       = [StoreActionId None, Free ''42'']
   \<and> ''/tmp/bundle.raucb'' \<notin> files (process_deployment_cleanup ((demo_world [])\<lparr>action_id := Some ''42'', files := {''/tmp/bundle.raucb''}\<rparr>))"
  using teardown_effects [of "(demo_world [])\<lparr>action_id := Some ''42'', files := {''/tmp/bundle.raucb''}\<rparr>"]
  by (simp add: demo_world_def demo_config_def)

text \<open>
  The claim as stated has the file gone after every teardown. When \<open>g_remove\<close> fails the
  source logs the failure and goes on, and the file is still there.
\<close>

theorem teardown_counterexample:
  "bundle_download_location (hawkbit_config stuck_world) = ''/tmp/bundle.raucb''
   \<and> ''/tmp/bundle.raucb'' \<in> files (process_deployment_cleanup stuck_world)
   \<and> action_id (process_deployment_cleanup stuck_world) = None"
  by (simp add: cleanup_fields stuck_world_def demo_world_def demo_config_def)

subsection \<open>The download worker on a checksum mismatch\<close>

lemma feedback_closed:
  "fst (feedback url i d f e w) =
     w\<lparr>trace := trace w @
          [Perform (rest_request_sent (hawkbit_config w) POST url
                      (Some (status_envelope (clock w (length (trace w))) i d f e None)))],
       logs := logs w @ rest_request_logs (json_to_string w)
                 (Some (status_envelope (clock w (length (trace w))) i d f e None)) False
                 (server w (trace w)
                    (rest_request_sent (hawkbit_config w) POST url
                       (Some (status_envelope (clock w (length (trace w))) i d f e None))))\<rparr>"
  by (simp add: feedback_def rest_request_eq json_build_status_eq Let_def)

lemma feedback_progress_closed:
  "fst (feedback_progress url i d w) = fst (feedback url i d ''none'' ''proceeding'' w)"
  by (simp add: feedback_progress_def feedback_def)

lemma get_binary_success:
  assumes "get_binary url file fs w = (w2, Inr x)"
  shows "w2 = w\<lparr>files := insert file (files w),
                 trace := trace w @ [PerformDownload (get_binary_sent (hawkbit_config w) url file)]\<rparr>"
    and "fopen_ok w file"
  using assms
  by (auto simp: get_binary_def Let_def emit_def get_binary_sent_def authorization_headers_def
        split: if_splits)

lemma closed_feedback_sent:
  "is_closed_feedback (Perform (rest_request_sent cfg POST url
      (Some (status_envelope ts i d f e data)))) = (e = ''closed'')"
  by (simp add: is_closed_feedback_def rest_request_sent_def json_get_string_def
        status_envelope_members)

text \<open>
  C3. When the worker's download has succeeded and the digest computed differs from
  \<open>artifact.sha1\<close> (the comparison is of the strings as they are), the worker sends
  exactly one terminal feedback: a POST to the artifact's feedback URL with the
  session's id, \<open>finished = failure\<close>, \<open>execution = closed\<close> and a detail that holds the
  computed and the declared hash. It then tears the session down: the store of \<open>NULL\<close>
  and the free are the last events, the action id is \<open>NULL\<close>, and the file that was
  downloaded is removed; if \<open>g_remove\<close> fails, the file stays and the failure is the last
  line logged, at debug level. The software-ready callback is not invoked, and the
  handle of the worker is left as it was.
\<close>

theorem checksum_mismatch:
  assumes "worker_download art w = (w2, Inr (sha1sum, speed))"
    and "sha1 art \<noteq> Some sha1sum"
  shows "\<exists>r body.
           filter is_closed_feedback (new_events w (download_thread art w)) = [Perform r]
           \<and> req_method r = POST \<and> req_url r = feedback_url art \<and> req_body r = Some body
           \<and> json_path [''id''] body = map_option JString (action_id w)
           \<and> json_path [''status'', ''result'', ''finished''] body = Some (JString ''failure'')
           \<and> json_path [''status'', ''execution''] body = Some (JString ''closed'')
           \<and> json_path [''status'', ''details''] body
               = Some (JArray [JString (''Software: '' @ str_or_null (name art) @ '' V''
                                        @ str_or_null (version art) @ ''. Invalid checksum: ''
                                        @ sha1sum @ '' expected '' @ str_or_null (sha1 art))])
           \<and> filter is_software_ready (new_events w (download_thread art w)) = []
           \<and> action_id (download_thread art w) = None
           \<and> drop 3 (new_events w (download_thread art w))
               = StoreActionId None # (case action_id w of None \<Rightarrow> [] | Some s \<Rightarrow> [Free s])
           \<and> (if remove_ok w (bundle_download_location (hawkbit_config w))
               then files (download_thread art w)
                      = files w - {bundle_download_location (hawkbit_config w)}
               else files (download_thread art w)
                      = insert (bundle_download_location (hawkbit_config w)) (files w)
                    \<and> last (logs (download_thread art w))
                        = (DEBUG, ''Failed to delete file: ''
                                  @ bundle_download_location (hawkbit_config w)))
           \<and> thread_download (download_thread art w) = thread_download w"
proof -
  let ?cfg = "hawkbit_config w"
  let ?loc = "bundle_download_location (hawkbit_config w)"
  let ?detail = "''Software: '' @ str_or_null (name art) @ '' V''
                   @ str_or_null (version art) @ ''. Invalid checksum: ''
                   @ sha1sum @ '' expected '' @ str_or_null (sha1 art)"
  let ?body = "status_envelope (clock w (Suc (Suc (length (trace w))))) (action_id w)
                 (Some ?detail) ''failure'' ''closed'' None"
  let ?r = "rest_request_sent ?cfg POST (feedback_url art) (Some ?body)"
  let ?p = "rest_request_sent ?cfg POST (feedback_url art)
              (Some (status_envelope (clock w (Suc (length (trace w)))) (action_id w)
                 (Some (''Download complete. '' @ show_mb_per_s speed @ '' MB/s''))
                 ''none'' ''proceeding'' None))"
  let ?d = "get_binary_sent ?cfg (download_url art) (bundle_download_location ?cfg)"
  from assms(1) have gb:
    "get_binary (download_url art) (bundle_download_location ?cfg) (size_bytes art)
       (g_log MESSAGE (''Start downloading: '' @ str_or_null (download_url art)) w)
     = (w2, Inr (sha1sum, speed))"
    by (simp add: worker_download_def)
  have w2: "w2 = w\<lparr>files := insert (bundle_download_location ?cfg) (files w),
                   trace := trace w @ [PerformDownload ?d],
                   logs := logs w @ [(MESSAGE, ''Start downloading: ''
                                               @ str_or_null (download_url art))]\<rparr>"
    using get_binary_success(1) [OF gb] by (simp add: g_log_def)
  define w3 where
    "w3 = fst (feedback_progress (feedback_url art) (action_id w2)
                 (Some (''Download complete. '' @ show_mb_per_s speed @ '' MB/s'')) w2)"
  define w4 where
    "w4 = g_log MESSAGE (''Download complete. '' @ show_mb_per_s speed @ '' MB/s'') w3"
  define w5 where
    "w5 = fst (feedback (feedback_url art) (action_id w4) (Some ?detail)
                 ''failure'' ''closed'' w4)"
  define w6 where "w6 = g_log CRITICAL ?detail w5"
  have dt: "download_thread art w = process_deployment_cleanup w6"
    using assms(2)
    by (simp add: download_thread_def gb [simplified] Let_def w3_def w4_def w5_def w6_def)
  have w6: "trace w6 = trace w @ [PerformDownload ?d, Perform ?p, Perform ?r]"
    "action_id w6 = action_id w"
    by (simp_all add: w6_def w5_def w4_def w3_def feedback_closed feedback_progress_closed
          g_log_def w2)
  have w6f: "files w6 = insert ?loc (files w)" "remove_ok w6 = remove_ok w"
    "hawkbit_config w6 = hawkbit_config w" "thread_download w6 = thread_download w"
    by (simp_all add: w6_def w5_def w4_def w3_def feedback_closed feedback_progress_closed
          g_log_def w2)
  have tr: "trace (download_thread art w)
              = trace w @ [PerformDownload ?d, Perform ?p, Perform ?r, StoreActionId None]
                @ (case action_id w of None \<Rightarrow> [] | Some s \<Rightarrow> [Free s])"
    and aid: "action_id (download_thread art w) = None"
    by (simp_all add: dt cleanup_fields w6)
  have fl: "if remove_ok w ?loc
            then files (download_thread art w) = files w - {?loc}
            else files (download_thread art w) = insert ?loc (files w)
                 \<and> last (logs (download_thread art w))
                     = (DEBUG, ''Failed to delete file: '' @ ?loc)"
    and td: "thread_download (download_thread art w) = thread_download w"
    by (simp_all add: dt cleanup_fields w6f)
  have ne: "new_events w (download_thread art w)
              = [PerformDownload ?d, Perform ?p, Perform ?r, StoreActionId None]
                @ (case action_id w of None \<Rightarrow> [] | Some s \<Rightarrow> [Free s])"
    by (simp add: new_events_def tr)
  have 1: "filter is_closed_feedback (new_events w (download_thread art w)) = [Perform ?r]"
    unfolding ne
    by (cases "action_id w") (simp_all add: closed_feedback_sent, simp_all add: is_closed_feedback_def)
  have 2: "filter is_software_ready (new_events w (download_thread art w)) = []"
    unfolding ne by (cases "action_id w") (simp_all add: is_software_ready_def)
  have 3: "drop 3 (new_events w (download_thread art w))
               = StoreActionId None # (case action_id w of None \<Rightarrow> [] | Some s \<Rightarrow> [Free s])"
    unfolding ne by simp
  have 4: "req_method ?r = POST" "req_url ?r = feedback_url art" "req_body ?r = Some ?body"
    by (simp_all add: rest_request_sent_def)
  have 5: "json_path [''id''] ?body = map_option JString (action_id w)"
    "json_path [''status'', ''result'', ''finished''] ?body = Some (JString ''failure'')"
    "json_path [''status'', ''execution''] ?body = Some (JString ''closed'')"
    "json_path [''status'', ''details''] ?body = Some (JArray [JString ?detail])"
    by (simp_all add: status_envelope_members)
  from 1 2 3 4 5 aid fl td show ?thesis
    by (intro exI [of _ ?r] exI [of _ ?body]) (simp only: simp_thms)
qed

theorem checksum_mismatch_witness:
  "length (filter is_closed_feedback
             (new_events (session_world []) (download_thread demo_artifact (session_world [])))) = 1
   \<and> filter is_software_ready
         (new_events (session_world []) (download_thread demo_artifact (session_world []))) = []
   \<and> action_id (download_thread demo_artifact (session_world [])) = None
   \<and> drop 3 (new_events (session_world []) (download_thread demo_artifact (session_world [])))
       = [StoreActionId None, Free ''42'']
   \<and> ''/tmp/bundle.raucb'' \<notin> files (download_thread demo_artifact (session_world []))"
proof -
  have "snd (worker_download demo_artifact (session_world []))
          = Inr (''60cacbf3d72e1e7834203da608037b1bf83b40e8'', 1048576)"
    by (simp add: worker_download_def get_binary_def Let_def session_world_def demo_world_def
          g_log_def emit_def)
  then obtain w2 where wd: "worker_download demo_artifact (session_world [])
          = (w2, Inr (''60cacbf3d72e1e7834203da608037b1bf83b40e8'', 1048576))"
    by (cases "worker_download demo_artifact (session_world [])") simp
  have ne: "sha1 demo_artifact \<noteq> Some ''60cacbf3d72e1e7834203da608037b1bf83b40e8''"
    by (simp add: demo_artifact_def)
  have aid: "action_id (session_world []) = Some ''42''"
    by (simp add: session_world_def)
  have env: "remove_ok (session_world []) p" "files (session_world []) = {}"
    "bundle_download_location (hawkbit_config (session_world [])) = ''/tmp/bundle.raucb''" for p
    by (simp_all add: session_world_def demo_world_def demo_config_def)
  from checksum_mismatch [OF wd ne] show ?thesis
    by (auto simp: aid env)
qed

subsection \<open>A deployment offered while a session is open\<close>

lemma tick_end_world: "snd (snd (tick_end ok d3 w3)) = w3"
  by (simp add: tick_end_def)

lemma identify_fields:
  "action_id (fst (identify w)) = action_id w"
  "thread_download (fst (identify w)) = thread_download w"
  "run_once (fst (identify w)) = run_once w"
  "hawkbit_config (fst (identify w)) = hawkbit_config w"
  "trace (fst (identify w)) = trace w @ [Perform (identify_sent w)]"
  by (simp_all add: identify_def Let_def rest_request_eq json_build_status_eq g_log_def
        identify_sent_def)

lemma identify_stage_fields:
  "action_id (snd (identify_stage root w)) = action_id w"
  "thread_download (snd (identify_stage root w)) = thread_download w"
  "run_once (snd (identify_stage root w)) = run_once w"
  "hawkbit_config (snd (identify_stage root w)) = hawkbit_config w"
  "trace (snd (identify_stage root w)) =
     trace w @ (if json_contains root [''_links'', ''configData'']
                then [Perform (identify_sent w)] else [])"
proof -
  obtain wi ri where idf: "identify w = (wi, ri)" by (cases "identify w")
  from identify_fields [of w] idf
  have wi: "action_id wi = action_id w" "thread_download wi = thread_download w"
    "run_once wi = run_once w" "hawkbit_config wi = hawkbit_config w"
    "trace wi = trace w @ [Perform (identify_sent w)]"
    by simp_all
  show "action_id (snd (identify_stage root w)) = action_id w"
    "thread_download (snd (identify_stage root w)) = thread_download w"
    "run_once (snd (identify_stage root w)) = run_once w"
    "hawkbit_config (snd (identify_stage root w)) = hawkbit_config w"
    "trace (snd (identify_stage root w)) =
       trace w @ (if json_contains root [''_links'', ''configData'']
                  then [Perform (identify_sent w)] else [])"
    by (cases ri; simp add: identify_stage_def idf g_log_def wi)+
qed

lemma base_poll_fields:
  "action_id (fst (base_poll w)) = action_id w"
  "thread_download (fst (base_poll w)) = thread_download w"
  "run_once (fst (base_poll w)) = run_once w"
  "hawkbit_config (fst (base_poll w)) = hawkbit_config w"
  "trace (fst (base_poll w)) =
     trace w @ [Perform (rest_request_sent (hawkbit_config w) GET
                           (build_api_url (hawkbit_config w) None) None)]"
  by (simp_all add: base_poll_def rest_request_eq g_log_def)

lemma process_deployment_in_progress:
  "action_id w = Some a \<Longrightarrow> process_deployment root w = (w, Inl (already_in_progress a))"
  by (simp add: process_deployment_def already_in_progress_def)

lemma rejected_tick:
  assumes "action_id w = Some a"
    and "\<not> last_run_sec d + 1 < hawkbit_interval_check_sec d"
    and "base_poll w = (w2, Inr root)"
    and "json_contains root [''_links'', ''deploymentBase'']"
  shows "snd (snd (hawkbit_pull_cb d w)) =
           cancel_stage root
             (g_log DEBUG (''Deployment '' @ a @ '' is already in progress.'')
                (snd (identify_stage root w2)))"
    and "action_id (snd (identify_stage root w2)) = Some a"
    and "thread_download (snd (identify_stage root w2)) = thread_download w"
    and "trace (snd (identify_stage root w2)) =
           trace w @ Perform (rest_request_sent (hawkbit_config w) GET
                                (build_api_url (hawkbit_config w) None) None)
                   # (if json_contains root [''_links'', ''configData'']
                      then [Perform (identify_sent w2)] else [])"
proof -
  from base_poll_fields [of w] assms(1,3)
  have w2f: "action_id w2 = Some a" "thread_download w2 = thread_download w"
    and w2t: "trace w2 = trace w @ [Perform (rest_request_sent (hawkbit_config w) GET
                                       (build_api_url (hawkbit_config w) None) None)]"
    by simp_all
  let ?wi = "snd (identify_stage root w2)"
  show wi: "action_id ?wi = Some a"
    by (simp add: identify_stage_fields w2f)
  show "thread_download ?wi = thread_download w"
    by (simp add: identify_stage_fields w2f)
  show "trace ?wi = trace w @ Perform (rest_request_sent (hawkbit_config w) GET
                                (build_api_url (hawkbit_config w) None) None)
                   # (if json_contains root [''_links'', ''configData'']
                      then [Perform (identify_sent w2)] else [])"
    by (simp add: identify_stage_fields w2t)
  have ds: "deployment_stage root (identify_stage root w2)
              = (False, g_log DEBUG (''Deployment '' @ a @ '' is already in progress.'') ?wi)"
    using assms(4)
    by (simp add: deployment_stage_def process_deployment_in_progress [OF wi]
          already_in_progress_def g_error_matches_def)
  show "snd (snd (hawkbit_pull_cb d w)) =
           cancel_stage root
             (g_log DEBUG (''Deployment '' @ a @ '' is already in progress.'') ?wi)"
    by (simp add: hawkbit_pull_cb_due [OF assms(2)] assms(3) tick_end_world ds)
qed


text \<open>
  C1. While the action id is not \<open>NULL\<close>, \<open>process_deployment\<close> fails with the
  already-in-progress error and leaves the world as it was: nothing is requested and no
  feedback is sent. On a tick whose base poll succeeds and offers a deployment, the
  caller logs that error's message at debug level, as the last line of the tick but
  for the cancel warning; the action id and the download worker are those of the open
  session; and the only transfers of the tick are the base poll and, when the server
  asked for it, the identify PUT.
\<close>

theorem deployment_rejected_while_in_progress:
  assumes "action_id w = Some a"
    and "\<not> last_run_sec d + 1 < hawkbit_interval_check_sec d"
    and "base_poll w = (w2, Inr root)"
    and "json_contains root [''_links'', ''deploymentBase'']"
  shows "process_deployment root w
           = (w, Inl (GError RHU_HAWKBIT_CLIENT_ERROR
                        RHU_HAWKBIT_CLIENT_ERROR_ALREADY_IN_PROGRESS
                        (''Deployment '' @ a @ '' is already in progress.'')))
         \<and> action_id (snd (snd (hawkbit_pull_cb d w))) = Some a
         \<and> thread_download (snd (snd (hawkbit_pull_cb d w))) = thread_download w
         \<and> logs (snd (snd (hawkbit_pull_cb d w)))
             = logs (snd (identify_stage root w2))
               @ (DEBUG, ''Deployment '' @ a @ '' is already in progress.'')
               # (if json_contains root [''_links'', ''cancelAction'']
                  then [(WARNING, ''cancel action not supported'')] else [])
         \<and> (\<exists>breq ireq.
               req_method breq = GET \<and> req_url breq = build_api_url (hawkbit_config w) None
               \<and> req_method ireq = PUT
               \<and> req_url ireq = build_api_url (hawkbit_config w) (Some ''configData'')
               \<and> new_events w (snd (snd (hawkbit_pull_cb d w)))
                   = Perform breq # (if json_contains root [''_links'', ''configData'']
                                     then [Perform ireq] else []))"
proof -
  let ?breq = "rest_request_sent (hawkbit_config w) GET (build_api_url (hawkbit_config w) None) None"
  note rt = rejected_tick [OF assms]
  have cfg2: "hawkbit_config w2 = hawkbit_config w"
    using base_poll_fields(4) [of w] assms(3) by simp
  have 1: "process_deployment root w
           = (w, Inl (GError RHU_HAWKBIT_CLIENT_ERROR
                        RHU_HAWKBIT_CLIENT_ERROR_ALREADY_IN_PROGRESS
                        (''Deployment '' @ a @ '' is already in progress.'')))"
    using process_deployment_in_progress [OF assms(1)] by (simp add: already_in_progress_def)
  have 2: "action_id (snd (snd (hawkbit_pull_cb d w))) = Some a"
    "thread_download (snd (snd (hawkbit_pull_cb d w))) = thread_download w"
    by (simp_all add: rt cancel_stage_def g_log_def)
  have 3: "logs (snd (snd (hawkbit_pull_cb d w)))
             = logs (snd (identify_stage root w2))
               @ (DEBUG, ''Deployment '' @ a @ '' is already in progress.'')
               # (if json_contains root [''_links'', ''cancelAction'']
                  then [(WARNING, ''cancel action not supported'')] else [])"
    by (simp add: rt(1) cancel_stage_def g_log_def)
  have 4: "new_events w (snd (snd (hawkbit_pull_cb d w)))
             = Perform ?breq # (if json_contains root [''_links'', ''configData'']
                                then [Perform (identify_sent w2)] else [])"
    by (simp add: new_events_def rt cancel_stage_def g_log_def)
  have 5: "req_method ?breq = GET" "req_url ?breq = build_api_url (hawkbit_config w) None"
    "req_method (identify_sent w2) = PUT"
    "req_url (identify_sent w2) = build_api_url (hawkbit_config w) (Some ''configData'')"
    by (simp_all add: rest_request_sent_def identify_sent_def cfg2)
  from 4 5 have "\<exists>breq ireq.
               req_method breq = GET \<and> req_url breq = build_api_url (hawkbit_config w) None
               \<and> req_method ireq = PUT
               \<and> req_url ireq = build_api_url (hawkbit_config w) (Some ''configData'')
               \<and> new_events w (snd (snd (hawkbit_pull_cb d w)))
                   = Perform breq # (if json_contains root [''_links'', ''configData'']
                                     then [Perform ireq] else [])"
    by blast
  with 1 2 3 show ?thesis by blast
qed

lemma session_base_poll:
  "snd (base_poll (session_world [((GET, base_url), r)])) = rest_request_result True r"
  by (simp add: base_poll_result session_world_def demo_world_def demo_base_url table_server_def
        rest_request_sent_def)

theorem deployment_rejected_while_in_progress_witness:
  "process_deployment (Some offer_doc) (session_world [((GET, base_url), json_reply offer_doc)])
     = (session_world [((GET, base_url), json_reply offer_doc)],
        Inl (GError RHU_HAWKBIT_CLIENT_ERROR RHU_HAWKBIT_CLIENT_ERROR_ALREADY_IN_PROGRESS
               ''Deployment 42 is already in progress.''))
   \<and> action_id (snd (snd (hawkbit_pull_cb due_data
                              (session_world [((GET, base_url), json_reply offer_doc)]))))
       = Some ''42''
   \<and> length (new_events (session_world [((GET, base_url), json_reply offer_doc)])
                (snd (snd (hawkbit_pull_cb due_data
                             (session_world [((GET, base_url), json_reply offer_doc)]))))) = 1"
proof -
  let ?w = "session_world [((GET, base_url), json_reply offer_doc)]"
  have aid: "action_id ?w = Some ''42''"
    by (simp add: session_world_def)
  have due: "\<not> last_run_sec due_data + 1 < hawkbit_interval_check_sec due_data"
    by (simp add: due_data_def)
  have "snd (base_poll ?w) = Inr (Some offer_doc)"
    by (simp add: session_base_poll rest_request_result_def json_reply_def)
  then obtain w2 where bp: "base_poll ?w = (w2, Inr (Some offer_doc))"
    by (cases "base_poll ?w") simp
  have jc: "json_contains (Some offer_doc) [''_links'', ''deploymentBase'']"
    "\<not> json_contains (Some offer_doc) [''_links'', ''configData'']"
    by (simp_all add: json_contains_def offer_doc_def)
  from deployment_rejected_while_in_progress [OF aid due bp jc(1)] jc(2)
  show ?thesis by auto
qed

subsection \<open>Deployment resources that cannot be parsed\<close>

lemma process_deployment_eq:
  "process_deployment req_root w =
     (case action_id w of
        Some a \<Rightarrow> (w, Inl (already_in_progress a))
      | None \<Rightarrow>
          (case json_get_string req_root [''_links'', ''deploymentBase'', ''href''] of
             None \<Rightarrow>
               (w, Inl (GError RHU_HAWKBIT_CLIENT_ERROR
                          RHU_HAWKBIT_CLIENT_ERROR_JSON_RESPONSE_PARSE
                          ''Failed to parse deployment base response.''))
           | Some deployment \<Rightarrow>
               (case rest_request GET deployment None True w of
                  (w1, Inl e) \<Rightarrow> (w1, Inl e)
                | (w1, Inr resp_root) \<Rightarrow> intake resp_root w1)))"
  unfolding process_deployment_def intake_def start_download_def parse_failed_def
    read_artifact_def parse_error_def already_in_progress_def
  by (simp only: Let_def artifact.simps)


lemma intake_without_id:
  assumes "json_get_string resp [''id''] = None"
  shows "intake resp w1 =
           (emit (StoreActionId None) (w1\<lparr>action_id := None\<rparr>),
            Inl (GError (Quark 1) 1 ''Failed to parse deployment base response.''))"
  using assms by (simp add: intake_def)

lemma intake_lacking:
  assumes "json_get_string resp [''id''] = Some aid" and "lacks_checked_field resp"
  shows "intake resp w1 =
           parse_failed (build_api_url (hawkbit_config w1)
                           (Some (''deploymentBase/'' @ aid @ ''/feedback'')))
             (emit (StoreActionId (Some aid)) (w1\<lparr>action_id := Some aid\<rparr>))"
  using assms
  by (auto simp: intake_def lacks_checked_field_def Let_def emit_def read_artifact_def
        split: option.splits list.splits)

lemma parse_failed_fields:
  "snd (parse_failed url w2) = Inl parse_error"
  "action_id (fst (parse_failed url w2)) = None"
  "thread_download (fst (parse_failed url w2)) = thread_download w2"
  "trace (fst (parse_failed url w2)) =
     trace w2 @ [Perform (rest_request_sent (hawkbit_config w2) POST url
                            (Some (status_envelope (clock w2 (length (trace w2))) (action_id w2)
                                     (Some ''Failed to parse deployment resource.'')
                                     ''failure'' ''closed'' None))),
                 StoreActionId None]
              @ (case action_id w2 of None \<Rightarrow> [] | Some s \<Rightarrow> [Free s])"
  by (simp_all add: parse_failed_def cleanup_fields feedback_closed)

lemma intake_complete:
  assumes "json_get_string resp [''id''] = Some aid" and "\<not> lacks_checked_field resp"
  shows "intake resp w1 =
           start_download
             (read_artifact (build_api_url (hawkbit_config w1)
                               (Some (''deploymentBase/'' @ aid @ ''/feedback'')))
                (first_chunk resp) (first_artifact resp))
             (emit (StoreActionId (Some aid)) (w1\<lparr>action_id := Some aid\<rparr>))"
  using assms
  by (auto simp: intake_def lacks_checked_field_def first_chunk_def first_artifact_def Let_def
        emit_def read_artifact_def split: option.splits list.splits)

lemma read_artifact_fields:
  "feedback_url (read_artifact url c a) = url"
  "size_bytes (read_artifact url c a) = json_get_int a [''size'']"
  by (simp_all add: read_artifact_def)

lemma get_available_space_frame:
  "get_available_space p (g_log l m w) = get_available_space p w"
  "get_available_space p (emit e w) = get_available_space p w"
  "get_available_space p (w\<lparr>action_id := a\<rparr>) = get_available_space p w"
  "get_available_space p (w\<lparr>trace := t, logs := lg\<rparr>) = get_available_space p w"
  by (simp_all add: get_available_space_def g_log_def emit_def Let_def cong: sum.case_cong)

lemma start_download_unknown_space:
  assumes "get_available_space (bundle_download_location (hawkbit_config w2)) w2 = Inl e"
  shows "start_download art w2 =
           (process_deployment_cleanup
              (fst (feedback (feedback_url art) (action_id w2) (Some (err_message e))
                      ''failure'' ''closed''
                      (g_log MESSAGE
                         (''New software ready for download. (Name: '' @ str_or_null (name art)
                          @ '', Version: '' @ str_or_null (version art)
                          @ '', Size: '' @ show_int (size_bytes art)
                          @ '', URL: '' @ str_or_null (download_url art) @ '')'') w2))),
            Inl e)"
proof -
  have a: "action_id (g_log l m w2) = action_id w2" for l m
    by (simp add: g_log_def)
  show ?thesis
    unfolding start_download_def Let_def get_available_space_frame assms sum.case a ..
qed

lemma start_download_no_space:
  assumes "get_available_space (bundle_download_location (hawkbit_config w2)) w2 = Inr freespace"
    and "freespace < size_bytes art"
  shows "start_download art w2 =
           (process_deployment_cleanup
              (fst (feedback (feedback_url art) (action_id w2)
                      (Some (''Not enough free space. File size: '' @ show_int (size_bytes art)
                             @ ''. Free space: '' @ show_int freespace))
                      ''failure'' ''closed''
                      (g_log DEBUG
                         (''Not enough free space. File size: '' @ show_int (size_bytes art)
                          @ ''. Free space: '' @ show_int freespace)
                      (g_log MESSAGE
                         (''New software ready for download. (Name: '' @ str_or_null (name art)
                          @ '', Version: '' @ str_or_null (version art)
                          @ '', Size: '' @ show_int (size_bytes art)
                          @ '', URL: '' @ str_or_null (download_url art) @ '')'') w2)))),
            Inl (GError (Quark 1) 23
                   (''Not enough free space. File size: '' @ show_int (size_bytes art)
                    @ ''. Free space: '' @ show_int freespace)))"
proof -
  have a: "action_id (g_log l m w) = action_id w" for l m w
    by (simp add: g_log_def)
  show ?thesis
    unfolding start_download_def Let_def get_available_space_frame assms(1) sum.case a
    using assms(2) by (simp only: if_True)
qed

lemma start_download_starts:
  assumes "get_available_space (bundle_download_location (hawkbit_config w2)) w2 = Inr freespace"
    and "\<not> freespace < size_bytes art"
  shows "snd (start_download art w2) = Inr ()"
    and "thread_download (fst (start_download art w2)) = Some art"
    and "action_id (fst (start_download art w2)) = action_id w2"
    and "files (fst (start_download art w2)) = files w2"
    and "trace (fst (start_download art w2))
           = trace w2 @ (case thread_download w2 of None \<Rightarrow> [] | Some t \<Rightarrow> [ThreadJoin t])
             @ [ThreadNew art]"
proof -
  have eq: "start_download art w2 =
          (emit (ThreadNew art)
             ((case thread_download w2 of
                 Some t \<Rightarrow> emit (ThreadJoin t)
                             (g_log MESSAGE
                         (''New software ready for download. (Name: '' @ str_or_null (name art)
                          @ '', Version: '' @ str_or_null (version art)
                          @ '', Size: '' @ show_int (size_bytes art)
                          @ '', URL: '' @ str_or_null (download_url art) @ '')'') w2)
               | None \<Rightarrow> g_log MESSAGE
                         (''New software ready for download. (Name: '' @ str_or_null (name art)
                          @ '', Version: '' @ str_or_null (version art)
                          @ '', Size: '' @ show_int (size_bytes art)
                          @ '', URL: '' @ str_or_null (download_url art) @ '')'') w2)
              \<lparr>thread_download := Some art\<rparr>), Inr ())"
  proof -
    have a: "thread_download (g_log l m w) = thread_download w" for l m w
      by (simp add: g_log_def)
    show ?thesis
      unfolding start_download_def Let_def get_available_space_frame assms(1) sum.case a
      using assms(2) by (simp only: if_False)
  qed
  show "snd (start_download art w2) = Inr ()"
    and "thread_download (fst (start_download art w2)) = Some art"
    and "action_id (fst (start_download art w2)) = action_id w2"
    and "files (fst (start_download art w2)) = files w2"
    and "trace (fst (start_download art w2))
           = trace w2 @ (case thread_download w2 of None \<Rightarrow> [] | Some t \<Rightarrow> [ThreadJoin t])
             @ [ThreadNew art]"
    unfolding eq by (cases "thread_download w2"; simp add: emit_def g_log_def)+
qed

lemma failure_closes_session:
  assumes "w' = process_deployment_cleanup
                  (fst (feedback url (Some aid) (Some m) ''failure'' ''closed'' wx))"
    and "trace wx = trace w1 @ [StoreActionId (Some aid)]"
    and "action_id wx = Some aid"
    and "hawkbit_config wx = cfg"
    and "files wx = fs"
    and "remove_ok wx = rm"
    and "thread_download wx = td"
  shows "(\<exists>r body.
            new_events w1 w' = [StoreActionId (Some aid), Perform r, StoreActionId None, Free aid]
            \<and> req_method r = POST
            \<and> req_url r = url
            \<and> req_body r = Some body
            \<and> json_path [''id''] body = Some (JString aid)
            \<and> json_path [''status'', ''result'', ''finished''] body = Some (JString ''failure'')
            \<and> json_path [''status'', ''execution''] body = Some (JString ''closed'')
            \<and> json_path [''status'', ''details''] body = Some (JArray [JString m]))
         \<and> thread_download w' = td
         \<and> action_id w' = None
         \<and> files w' = (if rm (bundle_download_location cfg)
                        then fs - {bundle_download_location cfg} else fs)"
proof -
  let ?body = "status_envelope (clock wx (length (trace wx))) (Some aid) (Some m)
                 ''failure'' ''closed'' None"
  let ?r = "rest_request_sent cfg POST url (Some ?body)"
  have tr: "new_events w1 w' = [StoreActionId (Some aid), Perform ?r, StoreActionId None, Free aid]"
    by (simp add: assms(1) new_events_def cleanup_fields feedback_closed assms(2-7))
  have rq: "req_method ?r = POST" "req_url ?r = url" "req_body ?r = Some ?body"
    by (simp_all add: rest_request_sent_def)
  have bd: "json_path [''id''] ?body = Some (JString aid)"
    "json_path [''status'', ''result'', ''finished''] ?body = Some (JString ''failure'')"
    "json_path [''status'', ''execution''] ?body = Some (JString ''closed'')"
    "json_path [''status'', ''details''] ?body = Some (JArray [JString m])"
    by (simp_all add: status_envelope_members)
  have rest: "thread_download w' = td" "action_id w' = None"
    "files w' = (if rm (bundle_download_location cfg)
                 then fs - {bundle_download_location cfg} else fs)"
    by (simp_all add: assms(1) cleanup_fields feedback_closed assms(2-7))
  from tr rq bd have "\<exists>r body.
            new_events w1 w' = [StoreActionId (Some aid), Perform r, StoreActionId None, Free aid]
            \<and> req_method r = POST
            \<and> req_url r = url
            \<and> req_body r = Some body
            \<and> json_path [''id''] body = Some (JString aid)
            \<and> json_path [''status'', ''result'', ''finished''] body = Some (JString ''failure'')
            \<and> json_path [''status'', ''execution''] body = Some (JString ''closed'')
            \<and> json_path [''status'', ''details''] body = Some (JArray [JString m])"
    by (intro exI [of _ ?r] exI [of _ ?body]) (simp only: simp_thms)
  with rest show ?thesis by (simp only: simp_thms)
qed


text \<open>
  C4, as amended. Let the session be idle and the GET of the deployment resource
  succeed. If the response has no action id, \<open>process_deployment\<close> returns an error
  with the message \<^verbatim>\<open>Failed to parse deployment base response.\<close>, sends nothing, starts
  no worker and leaves the files alone. If it has one, the call fails in three cases and
  no other: the response lacks the first chunk, the first artifact or both download
  links (the parse error, \<^verbatim>\<open>Failed to parse deployment resource.\<close>); the free space cannot
  be determined (the error of \<open>get_available_space\<close>); the free space is less than the
  size read (error 23 of domain 1). In each of them it sends one feedback for the id
  (\<open>finished = failure\<close>, \<open>execution = closed\<close>, the error's message as detail), returns
  the error, tears the session down (the action id is \<open>NULL\<close>, and the file at the bundle
  download location is gone if \<open>g_remove\<close> succeeds on it) and starts no worker. In every
  other case it starts the worker for the artifact as read: the size, the SHA-1, the
  name and the version are not checked, and one that is missing is read as \<open>NULL\<close>, the
  size as 0.
\<close>

theorem unparsable_deployment_resource:
  assumes "action_id w = None"
    and "json_get_string req_root [''_links'', ''deploymentBase'', ''href''] = Some href"
    and "rest_request GET href None True w = (w1, Inr resp)"
  shows "case json_get_string resp [''id''] of
           None \<Rightarrow>
             (\<exists>e. snd (process_deployment req_root w) = Inl e
                  \<and> err_message e = ''Failed to parse deployment base response.'')
             \<and> new_events w1 (fst (process_deployment req_root w)) = [StoreActionId None]
             \<and> thread_download (fst (process_deployment req_root w)) = thread_download w
             \<and> action_id (fst (process_deployment req_root w)) = None
             \<and> files (fst (process_deployment req_root w)) = files w
         | Some aid \<Rightarrow>
             (case (if lacks_checked_field resp then
                      Some (GError RHU_HAWKBIT_CLIENT_ERROR
                              RHU_HAWKBIT_CLIENT_ERROR_JSON_RESPONSE_PARSE
                              ''Failed to parse deployment resource.'')
                    else
                      (case get_available_space (bundle_download_location (hawkbit_config w)) w of
                         Inl ierror \<Rightarrow> Some ierror
                       | Inr freespace \<Rightarrow>
                           if freespace < json_get_int (first_artifact resp) [''size''] then
                             Some (GError (Quark 1) 23
                                     (''Not enough free space. File size: ''
                                      @ show_int (json_get_int (first_artifact resp) [''size''])
                                      @ ''. Free space: '' @ show_int freespace))
                           else None)) of
                Some e \<Rightarrow>
                  snd (process_deployment req_root w) = Inl e
                  \<and> (\<exists>r body.
                        new_events w1 (fst (process_deployment req_root w))
                          = [StoreActionId (Some aid), Perform r, StoreActionId None, Free aid]
                        \<and> req_method r = POST
                        \<and> req_url r = build_api_url (hawkbit_config w)
                                        (Some (''deploymentBase/'' @ aid @ ''/feedback''))
                        \<and> req_body r = Some body
                        \<and> json_path [''id''] body = Some (JString aid)
                        \<and> json_path [''status'', ''result'', ''finished''] body
                            = Some (JString ''failure'')
                        \<and> json_path [''status'', ''execution''] body = Some (JString ''closed'')
                        \<and> json_path [''status'', ''details''] body
                            = Some (JArray [JString (err_message e)]))
                  \<and> thread_download (fst (process_deployment req_root w)) = thread_download w
                  \<and> action_id (fst (process_deployment req_root w)) = None
                  \<and> files (fst (process_deployment req_root w))
                      = (if remove_ok w (bundle_download_location (hawkbit_config w))
                         then files w - {bundle_download_location (hawkbit_config w)}
                         else files w)
              | None \<Rightarrow>
                  snd (process_deployment req_root w) = Inr ()
                  \<and> new_events w1 (fst (process_deployment req_root w))
                      = StoreActionId (Some aid)
                        # (case thread_download w of None \<Rightarrow> [] | Some t \<Rightarrow> [ThreadJoin t])
                        @ [ThreadNew
                             (read_artifact
                                (build_api_url (hawkbit_config w)
                                   (Some (''deploymentBase/'' @ aid @ ''/feedback'')))
                                (first_chunk resp) (first_artifact resp))]
                  \<and> thread_download (fst (process_deployment req_root w))
                      = Some (read_artifact
                                (build_api_url (hawkbit_config w)
                                   (Some (''deploymentBase/'' @ aid @ ''/feedback'')))
                                (first_chunk resp) (first_artifact resp))
                  \<and> action_id (fst (process_deployment req_root w)) = Some aid
                  \<and> files (fst (process_deployment req_root w)) = files w)"
proof -
  let ?loc = "bundle_download_location (hawkbit_config w)"
  have pd: "process_deployment req_root w = intake resp w1"
    by (simp add: process_deployment_eq assms)
  have w1: "w1 = w\<lparr>trace := trace w1, logs := logs w1\<rparr>"
    using assms(3) by (simp add: rest_request_eq split: prod.splits) auto
  have w1f: "thread_download w1 = thread_download w" "hawkbit_config w1 = hawkbit_config w"
    "files w1 = files w" "remove_ok w1 = remove_ok w"
    by (subst w1, simp)+
  have sp1: "get_available_space p w1 = get_available_space p w" for p
    by (subst w1) (rule get_available_space_frame)
  show ?thesis
  proof (cases "json_get_string resp [''id'']")
    case None
    then show ?thesis
      by (simp add: pd intake_without_id new_events_def emit_def w1f)
  next
    case (Some aid)
    let ?url = "build_api_url (hawkbit_config w) (Some (''deploymentBase/'' @ aid @ ''/feedback''))"
    let ?w2 = "emit (StoreActionId (Some aid)) (w1\<lparr>action_id := Some aid\<rparr>)"
    let ?art = "read_artifact ?url (first_chunk resp) (first_artifact resp)"
    let ?closed = "\<lambda>e. snd (process_deployment req_root w) = Inl e
                  \<and> (\<exists>r body.
                        new_events w1 (fst (process_deployment req_root w))
                          = [StoreActionId (Some aid), Perform r, StoreActionId None, Free aid]
                        \<and> req_method r = POST
                        \<and> req_url r = ?url
                        \<and> req_body r = Some body
                        \<and> json_path [''id''] body = Some (JString aid)
                        \<and> json_path [''status'', ''result'', ''finished''] body
                            = Some (JString ''failure'')
                        \<and> json_path [''status'', ''execution''] body = Some (JString ''closed'')
                        \<and> json_path [''status'', ''details''] body
                            = Some (JArray [JString (err_message e)]))
                  \<and> thread_download (fst (process_deployment req_root w)) = thread_download w
                  \<and> action_id (fst (process_deployment req_root w)) = None
                  \<and> files (fst (process_deployment req_root w))
                      = (if remove_ok w ?loc then files w - {?loc} else files w)"
    have w2f: "trace (g_log l1 m1 (g_log l2 m2 ?w2)) = trace w1 @ [StoreActionId (Some aid)]"
      "action_id (g_log l1 m1 (g_log l2 m2 ?w2)) = Some aid"
      "hawkbit_config (g_log l1 m1 (g_log l2 m2 ?w2)) = hawkbit_config w"
      "files (g_log l1 m1 (g_log l2 m2 ?w2)) = files w"
      "remove_ok (g_log l1 m1 (g_log l2 m2 ?w2)) = remove_ok w"
      "thread_download (g_log l1 m1 (g_log l2 m2 ?w2)) = thread_download w"
      "trace (g_log l2 m2 ?w2) = trace w1 @ [StoreActionId (Some aid)]"
      "action_id (g_log l2 m2 ?w2) = Some aid"
      "hawkbit_config (g_log l2 m2 ?w2) = hawkbit_config w"
      "files (g_log l2 m2 ?w2) = files w"
      "remove_ok (g_log l2 m2 ?w2) = remove_ok w"
      "thread_download (g_log l2 m2 ?w2) = thread_download w"
      "trace ?w2 = trace w1 @ [StoreActionId (Some aid)]"
      "action_id ?w2 = Some aid"
      "hawkbit_config ?w2 = hawkbit_config w"
      "files ?w2 = files w"
      "remove_ok ?w2 = remove_ok w"
      "thread_download ?w2 = thread_download w" for l1 m1 l2 m2
      by (simp_all add: g_log_def emit_def w1f)
    have sp2: "get_available_space (bundle_download_location (hawkbit_config ?w2)) ?w2
                 = get_available_space ?loc w"
      by (simp only: w2f get_available_space_frame sp1)
    have sz: "size_bytes ?art = json_get_int (first_artifact resp) [''size'']"
      by (rule read_artifact_fields)
    show ?thesis
    proof (cases "lacks_checked_field resp")
      case True
      have pf: "process_deployment req_root w = parse_failed ?url ?w2"
        by (simp add: pd intake_lacking [OF Some True] w1f)
      have "?closed parse_error"
        using failure_closes_session [of "fst (process_deployment req_root w)" ?url aid
                "err_message parse_error" ?w2 w1 "hawkbit_config w" "files w" "remove_ok w"
                "thread_download w"]
        by (simp add: pf parse_failed_def w2f parse_error_def)
      then show ?thesis
        by (simp add: Some True parse_error_def)
    next
      case False
      have sd: "process_deployment req_root w = start_download ?art ?w2"
        by (simp add: pd intake_complete [OF Some False] w1f)
      show ?thesis
      proof (cases "get_available_space ?loc w")
        case (Inl ierror)
        from start_download_unknown_space [of ?w2 ierror ?art, unfolded sp2, OF Inl]
        obtain l m where eq: "start_download ?art ?w2 =
            (process_deployment_cleanup
               (fst (feedback (feedback_url ?art) (action_id ?w2) (Some (err_message ierror))
                       ''failure'' ''closed'' (g_log l m ?w2))),
             Inl ierror)"
          by (rule that)
        have "?closed ierror"
          using failure_closes_session [of "fst (process_deployment req_root w)" ?url aid
                  "err_message ierror" "g_log l m ?w2" w1 "hawkbit_config w" "files w"
                  "remove_ok w" "thread_download w"]
          by (simp add: sd eq [simplified] read_artifact_fields w2f)
        then show ?thesis
          by (simp add: Some False Inl)
      next
        case (Inr freespace)
        show ?thesis
        proof (cases "freespace < json_get_int (first_artifact resp) [''size'']")
          case True
          let ?e = "GError (Quark 1) 23
                      (''Not enough free space. File size: ''
                       @ show_int (json_get_int (first_artifact resp) [''size''])
                       @ ''. Free space: '' @ show_int freespace)"
          from start_download_no_space [of ?w2 freespace ?art, unfolded sp2 sz, OF Inr True]
          obtain l1 m1 l2 m2 where eq: "start_download ?art ?w2 =
              (process_deployment_cleanup
                 (fst (feedback (feedback_url ?art) (action_id ?w2) (Some (err_message ?e))
                         ''failure'' ''closed'' (g_log l1 m1 (g_log l2 m2 ?w2)))),
               Inl ?e)"
            by (simp only: GError.sel)
          have "?closed ?e"
            using failure_closes_session [of "fst (process_deployment req_root w)" ?url aid
                    "err_message ?e" "g_log l1 m1 (g_log l2 m2 ?w2)" w1 "hawkbit_config w"
                    "files w" "remove_ok w" "thread_download w"]
            by (simp add: sd eq [simplified] read_artifact_fields w2f)
          then show ?thesis
            by (simp add: Some False Inr True)
        next
          case nospace: False
          note st = start_download_starts [of ?w2 freespace ?art, unfolded sp2 sz, OF Inr nospace]
          have "snd (process_deployment req_root w) = Inr ()"
            "new_events w1 (fst (process_deployment req_root w))
                      = StoreActionId (Some aid)
                        # (case thread_download w of None \<Rightarrow> [] | Some t \<Rightarrow> [ThreadJoin t])
                        @ [ThreadNew ?art]"
            "thread_download (fst (process_deployment req_root w)) = Some ?art"
            "action_id (fst (process_deployment req_root w)) = Some aid"
            "files (fst (process_deployment req_root w)) = files w"
            by (simp_all add: sd st [simplified] w2f new_events_def)
          then show ?thesis
            by (simp add: Some False Inr nospace)
        qed
      qed
    qed
  qed
qed



lemma demo_deployment_get:
  "rest_request GET dep_url None True (demo_world [((GET, dep_url), json_reply doc)])
     = ((demo_world [((GET, dep_url), json_reply doc)])
          \<lparr>trace := [Perform (rest_request_sent demo_config GET dep_url None)],
           logs := [(DEBUG, ''Response body: {}'')]\<rparr>,
        Inr (Some doc))"
  by (simp add: rest_request_eq demo_world_def table_server_def rest_request_sent_def
        rest_request_result_def rest_request_logs_def json_reply_def)

lemma offer_href:
  "json_get_string (Some offer_doc) [''_links'', ''deploymentBase'', ''href''] = Some dep_url"
  by (simp add: json_get_string_def offer_doc_def dep_url_def)

theorem unparsable_deployment_resource_witness:
  "snd (process_deployment (Some offer_doc) (demo_world [((GET, dep_url), json_reply no_chunks_doc)]))
     = Inl (GError RHU_HAWKBIT_CLIENT_ERROR RHU_HAWKBIT_CLIENT_ERROR_JSON_RESPONSE_PARSE
              ''Failed to parse deployment resource.'')
   \<and> thread_download
         (fst (process_deployment (Some offer_doc)
                 (demo_world [((GET, dep_url), json_reply no_chunks_doc)]))) = None
   \<and> action_id
         (fst (process_deployment (Some offer_doc)
                 (demo_world [((GET, dep_url), json_reply no_chunks_doc)]))) = None
   \<and> files
         (fst (process_deployment (Some offer_doc)
                 (demo_world [((GET, dep_url), json_reply no_chunks_doc)]))) = {}
   \<and> action_id
         (fst (process_deployment (Some offer_doc)
                 (demo_world [((GET, dep_url), json_reply no_id_doc)]))) = None
   \<and> snd (process_deployment (Some offer_doc)
             (demo_world [((GET, dep_url), json_reply no_hash_doc)])) = Inr ()
   \<and> action_id
         (fst (process_deployment (Some offer_doc)
                 (demo_world [((GET, dep_url), json_reply no_hash_doc)]))) = Some ''43''"
proof -
  have idle: "action_id (demo_world tab) = None" "thread_download (demo_world tab) = None"
    "files (demo_world tab) = {}" for tab
    by (simp_all add: demo_world_def)
  have id1: "json_get_string (Some no_chunks_doc) [''id''] = Some ''43''"
    by (simp add: json_get_string_def no_chunks_doc_def)
  have lack: "lacks_checked_field (Some no_chunks_doc)"
    by (simp add: lacks_checked_field_def json_get_array_def no_chunks_doc_def)
  have id2: "json_get_string (Some no_id_doc) [''id''] = None"
    by (simp add: json_get_string_def no_id_doc_def)
  have id3: "json_get_string (Some no_hash_doc) [''id''] = Some ''43''"
    by (simp add: json_get_string_def no_hash_doc_def)
  have full: "\<not> lacks_checked_field (Some no_hash_doc)"
    by (simp add: lacks_checked_field_def json_get_array_def json_get_string_def no_hash_doc_def)
  have sz: "json_get_int (first_artifact (Some no_hash_doc)) [''size''] = 0"
    by (simp add: first_artifact_def first_chunk_def json_get_array_def json_get_int_def
          no_hash_doc_def)
  have sp: "get_available_space p (demo_world tab) = Inr 4096000" for p tab
    by (simp add: get_available_space_def demo_world_def to_goffset_def)
  from unparsable_deployment_resource [OF idle(1) offer_href demo_deployment_get, of no_chunks_doc]
       unparsable_deployment_resource [OF idle(1) offer_href demo_deployment_get, of no_id_doc]
       unparsable_deployment_resource [OF idle(1) offer_href demo_deployment_get, of no_hash_doc]
  show ?thesis
    by (simp add: id1 id2 id3 lack full sz sp idle)
qed

lemma start_download_spawns:
  assumes "statvfs w2 (dirname (bundle_download_location (hawkbit_config w2))) = Inr (bs, ba)"
    and "\<not> to_goffset (to_goffset bs * to_goffset ba) < size_bytes art"
  shows "snd (start_download art w2) = Inr ()"
    and "thread_download (fst (start_download art w2)) = Some art"
  using assms
  by (simp_all add: start_download_def get_available_space_def g_log_def Let_def emit_def
        split: option.split)

text \<open>
  The claim as stated fails twice. A response without id gets no feedback: there is no
  id to report on. And a response whose artifact has a download link but no size, hash,
  name or version is accepted: the worker is started for it.
\<close>

theorem unparsable_deployment_resource_counterexample:
  "json_get_string (Some no_id_doc) [''id''] = None
   \<and> filter is_closed_feedback
         (trace (fst (process_deployment (Some offer_doc)
                        (demo_world [((GET, dep_url), json_reply no_id_doc)])))) = []
   \<and> snd (process_deployment (Some offer_doc)
             (demo_world [((GET, dep_url), json_reply no_hash_doc)])) = Inr ()
   \<and> thread_download
         (fst (process_deployment (Some offer_doc)
                 (demo_world [((GET, dep_url), json_reply no_hash_doc)])))
       = Some \<lparr>name = None, version = None, size_bytes = 0,
                download_url = Some ''https://hawkbit.example/dl/bundle.raucb'',
                feedback_url = base_url @ ''/deploymentBase/43/feedback'', sha1 = None\<rparr>"
proof -
  have idle: "action_id (demo_world tab) = None" for tab
    by (simp add: demo_world_def)
  have id2: "json_get_string (Some no_id_doc) [''id''] = None"
    by (simp add: json_get_string_def no_id_doc_def)
  have a: "filter is_closed_feedback
         (trace (fst (process_deployment (Some offer_doc)
                        (demo_world [((GET, dep_url), json_reply no_id_doc)])))) = []"
    by (simp add: process_deployment_eq idle offer_href demo_deployment_get
          intake_without_id [OF id2] emit_def is_closed_feedback_def rest_request_sent_def)
  have id3: "json_get_string (Some no_hash_doc) [''id''] = Some ''43''"
    by (simp add: json_get_string_def no_hash_doc_def)
  let ?art = "JObject [(''_links'', JObject [(''download'',
                   JObject [(''href'', JString ''https://hawkbit.example/dl/bundle.raucb'')])])]"
  let ?chunk = "JObject [(''artifacts'', JArray [?art])]"
  have ch: "json_get_array (Some no_hash_doc) [''deployment'', ''chunks''] = Some [?chunk]"
    by (simp add: json_get_array_def no_hash_doc_def)
  have ar: "json_get_array (Some ?chunk) [''artifacts''] = Some [?art]"
    by (simp add: json_get_array_def)
  have art: "read_artifact url (Some ?chunk) (Some ?art)
             = \<lparr>name = None, version = None, size_bytes = 0,
                download_url = Some ''https://hawkbit.example/dl/bundle.raucb'',
                feedback_url = url, sha1 = None\<rparr>" for url
    by (simp add: read_artifact_def json_get_string_def json_get_int_def)
  have url: "build_api_url demo_config (Some ''deploymentBase/43/feedback'')
               = base_url @ ''/deploymentBase/43/feedback''"
    by (simp add: build_api_url_def demo_config_def base_url_def)
  have cfgd: "hawkbit_config (demo_world tab) = demo_config" for tab
    by (simp add: demo_world_def)
  have b: "process_deployment (Some offer_doc)
             (demo_world [((GET, dep_url), json_reply no_hash_doc)])
           = start_download \<lparr>name = None, version = None, size_bytes = 0,
                download_url = Some ''https://hawkbit.example/dl/bundle.raucb'',
                feedback_url = base_url @ ''/deploymentBase/43/feedback'', sha1 = None\<rparr>
               (emit (StoreActionId (Some ''43''))
                  ((demo_world [((GET, dep_url), json_reply no_hash_doc)])
                     \<lparr>trace := [Perform (rest_request_sent demo_config GET dep_url None)],
                      logs := [(DEBUG, ''Response body: {}'')],
                      action_id := Some ''43''\<rparr>))"
    by (simp add: process_deployment_eq idle offer_href demo_deployment_get intake_def id3
          ch ar art emit_def url cfgd Let_def)
  have sp: "statvfs (emit e ((demo_world tab)\<lparr>trace := t, logs := lg, action_id := i\<rparr>)) p
              = Inr (4096, 1000)" for e tab t lg i p
    by (simp add: emit_def demo_world_def)
  show ?thesis
    by (simp add: id2 a b start_download_spawns [OF sp] to_goffset_def)
qed

subsection \<open>The result of a tick and the exit code\<close>

lemma run_once_fields:
  "run_once (g_log l m w) = run_once w"
  "run_once (emit e w) = run_once w"
  "run_once (fst (rest_request m' u b wp w)) = run_once w"
  "run_once (fst (feedback url i dt f ex w)) = run_once w"
  "run_once (process_deployment_cleanup w) = run_once w"
  by (simp_all add: g_log_def emit_def rest_request_eq feedback_closed
        process_deployment_cleanup_def Let_def split: option.split)

lemma parse_failed_run_once: "run_once (fst (parse_failed url w)) = run_once w"
  by (simp add: parse_failed_def run_once_fields)

lemma start_download_run_once: "run_once (fst (start_download art w)) = run_once w"
  by (simp add: start_download_def Let_def run_once_fields split: sum.split option.split)

lemma intake_run_once: "run_once (fst (intake resp w)) = run_once w"
  by (simp add: intake_def Let_def run_once_fields parse_failed_run_once
        start_download_run_once split: option.split list.split)

lemma process_deployment_run_once:
  "run_once (fst (process_deployment root w)) = run_once w"
proof (cases "action_id w")
  case (Some a)
  then show ?thesis by (simp add: process_deployment_eq)
next
  case None
  show ?thesis
  proof (cases "json_get_string root [''_links'', ''deploymentBase'', ''href'']")
    case None
    with \<open>action_id w = None\<close> show ?thesis by (simp add: process_deployment_eq)
  next
    case (Some dep)
    obtain w1 r1 where rr: "rest_request GET dep None True w = (w1, r1)"
      by (cases "rest_request GET dep None True w")
    have w1: "run_once w1 = run_once w"
      using run_once_fields(3) [of GET dep None True w] by (simp add: rr)
    from \<open>action_id w = None\<close> Some show ?thesis
      by (cases r1) (simp_all add: process_deployment_eq rr w1 intake_run_once)
  qed
qed

lemma deployment_stage_run_once:
  "run_once (snd (deployment_stage root before)) = run_once (snd before)"
proof -
  obtain wd rd where pd: "process_deployment root (snd before) = (wd, rd)"
    by (cases "process_deployment root (snd before)")
  have "run_once wd = run_once (snd before)"
    using process_deployment_run_once [of root "snd before"] by (simp add: pd)
  then show ?thesis
    by (cases rd) (simp_all add: deployment_stage_def pd run_once_fields)
qed


lemma poll_failure_logged_run_once: "run_once (poll_failure_logged e w) = run_once w"
  by (simp add: poll_failure_logged_def Let_def run_once_fields)

lemma tick_end_run_once:
  "run_once w3 \<Longrightarrow> tick_end ok d3 w3
     = (G_SOURCE_REMOVE, d3\<lparr>res := (if ok then 0 else 1), loop_quit := True\<rparr>, w3)"
  by (simp add: tick_end_def)

lemma deployment_stage_ok:
  "fst (deployment_stage root before) =
     (if json_contains root [''_links'', ''deploymentBase''] then
        (case snd (process_deployment root (snd before)) of Inl e \<Rightarrow> False | Inr u \<Rightarrow> True)
      else fst before)"
proof -
  obtain wd rd where pd: "process_deployment root (snd before) = (wd, rd)"
    by (cases "process_deployment root (snd before)")
  show ?thesis
    by (cases rd) (simp_all add: deployment_stage_def pd)
qed

lemma identify_stage_ok:
  "fst (identify_stage root w) =
     (if json_contains root [''_links'', ''configData''] then
        (case snd (identify w) of Inl e \<Rightarrow> False | Inr reply \<Rightarrow> True)
      else True)"
proof -
  obtain wi ri where idf: "identify w = (wi, ri)" by (cases "identify w")
  show ?thesis
    by (cases ri) (simp_all add: identify_stage_def idf)
qed

lemma one_shot_exit:
  assumes "run_once w" and "base_poll w = (w2, polled)"
  shows "map_option fst (hawkbit_start_service_sync (Suc n) w) = Some
           (case polled of
              Inl e \<Rightarrow> 1
            | Inr root \<Rightarrow>
                if json_contains root [''_links'', ''deploymentBase''] then
                  (case snd (process_deployment root (snd (identify_stage root w2))) of
                     Inl e \<Rightarrow> 1 | Inr u \<Rightarrow> 0)
                else if json_contains root [''_links'', ''configData''] then
                  (case snd (identify w2) of Inl e \<Rightarrow> 1 | Inr reply \<Rightarrow> 0)
                else 0)
         \<and> map_option snd (hawkbit_start_service_sync (Suc n) w) = Some
             (snd (snd (hawkbit_pull_cb
                          \<lparr>loop_quit = False, res = stack_res w,
                           hawkbit_interval_check_sec = retry_wait (hawkbit_config w),
                           last_run_sec = retry_wait (hawkbit_config w)\<rparr> w)))"
proof -
  let ?d = "\<lparr>loop_quit = False, res = stack_res w,
             hawkbit_interval_check_sec = retry_wait (hawkbit_config w),
             last_run_sec = retry_wait (hawkbit_config w)\<rparr>"
  have due: "\<not> last_run_sec ?d + 1 < hawkbit_interval_check_sec ?d" by simp
  have ro2: "run_once w2"
    using base_poll_fields(3) [of w] assms by simp
  let ?code = "case polled of
              Inl e \<Rightarrow> (1::int)
            | Inr root \<Rightarrow>
                if json_contains root [''_links'', ''deploymentBase''] then
                  (case snd (process_deployment root (snd (identify_stage root w2))) of
                     Inl e \<Rightarrow> 1 | Inr u \<Rightarrow> 0)
                else if json_contains root [''_links'', ''configData''] then
                  (case snd (identify w2) of Inl e \<Rightarrow> 1 | Inr reply \<Rightarrow> 0)
                else 0"
  have fin: "loop_quit (fst (snd (hawkbit_pull_cb ?d w)))
             \<and> res (fst (snd (hawkbit_pull_cb ?d w))) = ?code"
  proof (cases polled)
    case (Inl e)
    have "run_once (poll_failure_logged e w2)"
      by (simp add: poll_failure_logged_run_once ro2)
    then have "hawkbit_pull_cb ?d w
           = (G_SOURCE_REMOVE,
              ?d\<lparr>last_run_sec := 0, hawkbit_interval_check_sec := retry_wait (hawkbit_config w)\<rparr>
                \<lparr>res := (if False then 0 else 1), loop_quit := True\<rparr>,
              poll_failure_logged e w2)"
      by (simp only: hawkbit_pull_cb_due [OF due] assms(2) Inl prod.case sum.case
            tick_end_run_once)
    with Inl show ?thesis by simp
  next
    case (Inr root)
    let ?st = "deployment_stage root (identify_stage root w2)"
    have "run_once (cancel_stage root (snd ?st))"
      by (simp add: cancel_stage_def run_once_fields deployment_stage_run_once
            identify_stage_fields ro2)
    then have "hawkbit_pull_cb ?d w
           = (G_SOURCE_REMOVE,
              ?d\<lparr>last_run_sec := 0, hawkbit_interval_check_sec := json_get_sleeptime w2 root\<rparr>
                \<lparr>res := (if fst ?st then 0 else 1), loop_quit := True\<rparr>,
              cancel_stage root (snd ?st))"
      by (simp only: hawkbit_pull_cb_due [OF due] assms(2) Inr prod.case sum.case
            tick_end_run_once)
    with Inr show ?thesis
      by (simp add: deployment_stage_ok identify_stage_ok split: sum.split)
  qed
  have nonneg: "0 \<le> ?code"
    by (simp split: sum.split)
  obtain c d' w' where pc: "hawkbit_pull_cb ?d w = (c, d', w')"
    by (cases "hawkbit_pull_cb ?d w")
  with fin have d': "loop_quit d'" "res d' = ?code" by simp_all
  have run: "hawkbit_start_service_sync (Suc n) w = Some (?code, w')"
    using nonneg by (simp add: hawkbit_start_service_sync_def pc d')
  show ?thesis
    by (simp add: run pc)
qed


text \<open>
  C5, as amended. In one-shot mode the process exits after its first tick, which polls:
  the world it leaves is the world after one call of \<open>hawkbit_pull_cb\<close>, whatever the
  fuel. The exit code is 0 when the tick succeeded and 1 when it failed, and the result
  of the tick is the result of the last step that ran: of \<open>process_deployment\<close> when
  the response offers a deployment; else of \<open>identify\<close> when the response asks for it;
  else of the base GET, which is also the result whenever the GET fails.
\<close>

theorem one_shot_exit_code:
  assumes "run_once w" and "base_poll w = (w2, polled)"
  shows "map_option fst (hawkbit_start_service_sync (Suc n) w) = Some
           (case polled of
              Inl e \<Rightarrow> 1
            | Inr root \<Rightarrow>
                if json_contains root [''_links'', ''deploymentBase''] then
                  (case snd (process_deployment root (snd (identify_stage root w2))) of
                     Inl e \<Rightarrow> 1 | Inr u \<Rightarrow> 0)
                else if json_contains root [''_links'', ''configData''] then
                  (case snd (identify w2) of Inl e \<Rightarrow> 1 | Inr reply \<Rightarrow> 0)
                else 0)
         \<and> map_option snd (hawkbit_start_service_sync (Suc n) w) = Some
             (snd (snd (hawkbit_pull_cb
                          \<lparr>loop_quit = False, res = stack_res w,
                           hawkbit_interval_check_sec = retry_wait (hawkbit_config w),
                           last_run_sec = retry_wait (hawkbit_config w)\<rparr> w)))"
  using assms by (rule one_shot_exit)

lemma one_shot_base_poll:
  "snd (base_poll (one_shot_world (((GET, base_url), r) # tab))) = rest_request_result True r"
  by (simp add: base_poll_result one_shot_world_def demo_world_def demo_base_url table_server_def
        rest_request_sent_def)

lemma one_shot_run_once: "run_once (one_shot_world tab)"
  by (simp add: one_shot_world_def)

theorem one_shot_exit_code_witness:
  "map_option fst (hawkbit_start_service_sync (Suc 0)
                     (one_shot_world [((GET, base_url), json_reply sleep_doc)])) = Some 0
   \<and> map_option fst (hawkbit_start_service_sync (Suc 0)
                       (one_shot_world [((GET, base_url), unreachable)])) = Some 1"
proof -
  have "snd (base_poll (one_shot_world [((GET, base_url), json_reply sleep_doc)]))
          = Inr (Some sleep_doc)"
    by (simp add: one_shot_base_poll rest_request_result_def json_reply_def)
  then obtain wa where
    a: "base_poll (one_shot_world [((GET, base_url), json_reply sleep_doc)])
          = (wa, Inr (Some sleep_doc))"
    by (cases "base_poll (one_shot_world [((GET, base_url), json_reply sleep_doc)])") simp
  have "snd (base_poll (one_shot_world [((GET, base_url), unreachable)]))
          = Inl (GError RHU_HAWKBIT_CLIENT_CURL_ERROR 7 ''Couldn't connect to server'')"
    by (simp add: one_shot_base_poll rest_request_result_def unreachable_def)
  then obtain wb where
    b: "base_poll (one_shot_world [((GET, base_url), unreachable)])
          = (wb, Inl (GError RHU_HAWKBIT_CLIENT_CURL_ERROR 7 ''Couldn't connect to server''))"
    by (cases "base_poll (one_shot_world [((GET, base_url), unreachable)])") simp
  have jc: "\<not> json_contains (Some sleep_doc) [''_links'', ''deploymentBase'']"
    "\<not> json_contains (Some sleep_doc) [''_links'', ''configData'']"
    by (simp_all add: json_contains_def sleep_doc_def)
  from one_shot_exit_code [OF one_shot_run_once a, of 0]
       one_shot_exit_code [OF one_shot_run_once b, of 0] jc
  show ?thesis by simp
qed

lemma identify_result:
  "snd (identify w) = rest_request_result False (server w (trace w) (identify_sent w))"
  by (simp add: identify_def Let_def rest_request_eq json_build_status_eq g_log_def
        identify_sent_def)

lemma base_poll_server: "server (fst (base_poll w)) = server w"
  by (simp add: base_poll_def rest_request_eq g_log_def)

text \<open>
  The claim as stated makes the result depend on the base GET alone. Here the GET
  succeeds, the identify PUT that follows is answered with 500, and the exit code is 1.
\<close>

theorem one_shot_exit_code_counterexample:
  "snd (base_poll (one_shot_world [((GET, base_url), json_reply identify_offer_doc),
                                   ((PUT, base_url @ ''/configData''), server_error)]))
     = Inr (Some identify_offer_doc)
   \<and> map_option fst
         (hawkbit_start_service_sync (Suc 0)
            (one_shot_world [((GET, base_url), json_reply identify_offer_doc),
                             ((PUT, base_url @ ''/configData''), server_error)]))
       = Some 1"
proof -
  let ?w = "one_shot_world [((GET, base_url), json_reply identify_offer_doc),
                            ((PUT, base_url @ ''/configData''), server_error)]"
  have ok: "snd (base_poll ?w) = Inr (Some identify_offer_doc)"
    by (simp add: one_shot_base_poll rest_request_result_def json_reply_def)
  then obtain w2 where bp: "base_poll ?w = (w2, Inr (Some identify_offer_doc))"
    by (cases "base_poll ?w") simp
  have jc: "\<not> json_contains (Some identify_offer_doc) [''_links'', ''deploymentBase'']"
    "json_contains (Some identify_offer_doc) [''_links'', ''configData'']"
    by (simp_all add: json_contains_def identify_offer_doc_def)
  have srv: "server w2 = server ?w" and cfg: "hawkbit_config w2 = hawkbit_config ?w"
    using base_poll_server [of ?w] base_poll_fields(4) [of ?w] bp by simp_all
  have url: "build_api_url demo_config (Some ''configData'') = base_url @ ''/configData''"
    by (simp add: build_api_url_def demo_config_def base_url_def)
  have "server w2 (trace w2) (identify_sent w2) = server_error"
    by (simp add: srv cfg identify_sent_def rest_request_sent_def one_shot_world_def
          demo_world_def table_server_def url)
  then have idf: "snd (identify w2)
      = Inl (GError RHU_HAWKBIT_CLIENT_HTTP_ERROR 500
               (''HTTP request failed: '' @ show_int 500
                @ ''; server response: Internal Server Error''))"
    by (simp add: identify_result rest_request_result_def server_error_def)
  from one_shot_exit [OF one_shot_run_once bp, of 0] jc idf ok
  show ?thesis by simp
qed

end
